theory Spec2Isabelle
  imports Complex_Main "HOL-Library.AList" "HOL-Library.Sublist"
begin

section \<open>Data model of \<^verbatim>\<open>webapp/api/index.py\<close>\<close>

text \<open>
  Python strings are modelled as \<^typ>\<open>string\<close>: the UTF-8 bytes of the text. The Korean
  literals of the source are written as their bytes. Python floats are modelled by exact
  rationals: every float the program computes is a sum, a quotient by ten, a doubling or a
  minimum of configured numbers, and rounding is not modelled.
\<close>

text \<open>A value decoded from JSON (the type \<^verbatim>\<open>Any\<close> of a response).\<close>

datatype json =
    JNull
  | JBool bool
  | JNum rat
  | JStr string
  | JArr "json list"
  | JObj "(string \<times> json) list"

text \<open>Python's truth value of a decoded JSON value (\<^verbatim>\<open>if v:\<close>).\<close>

fun truthy :: "json \<Rightarrow> bool" where
  "truthy JNull = False"
| "truthy (JBool b) = b"
| "truthy (JNum n) = (n \<noteq> 0)"
| "truthy (JStr s) = (s \<noteq> [])"
| "truthy (JArr xs) = (xs \<noteq> [])"
| "truthy (JObj kvs) = (kvs \<noteq> [])"

text \<open>The exceptions the modelled methods can raise.\<close>

datatype error = KeyError string | IndexError | AttributeError | TypeError

text \<open>\<^verbatim>\<open>class Question\<close>; \<^verbatim>\<open>required\<close> is read with \<^verbatim>\<open>q.get('required', False)\<close>.\<close>

record question =
  question_id :: string
  question_text :: string
  question_type :: string
  required :: "bool option"
  weight :: int
  options :: "string list option"
  follow_up :: "string option"
  placeholder :: "string option"

text \<open>The dictionary \<^verbatim>\<open>user_response\<close> built by \<^verbatim>\<open>submit_response\<close>.\<close>

record user_response =
  r_question_id :: string
  response :: json
  additional_details :: "string option"
  timestamp :: string

text \<open>
  \<^verbatim>\<open>self.user_responses\<close>: a Python dictionary keeps its keys in insertion order, and an
  assignment to a key that is present keeps the key's place. That is an association list
  with \<^const>\<open>AList.update\<close>; \<^verbatim>\<open>d.get(k)\<close> is \<^const>\<open>map_of\<close>.
\<close>

type_synonym ledger = "(string \<times> user_response) list"

text \<open>
  An entry of the template catalog. Every field but \<^verbatim>\<open>name\<close> and \<^verbatim>\<open>url\<close> is read with
  \<^verbatim>\<open>template.get(key, default)\<close>, so it may be absent. The keys \<^verbatim>\<open>slide_count\<close> and
  \<^verbatim>\<open>features\<close> of the mock catalog are never read and are left out.
\<close>

record template =
  name :: string
  url :: string
  style_tags :: "string list option"
  color_schemes :: "string list option"
  suitable_for :: "string list option"
  compatible_versions :: "string list option"
  pros :: "string list option"
  cons :: "string list option"
  difficulty :: "string option"
  preview_image :: "string option"

text \<open>The dictionary \<^verbatim>\<open>recommendation\<close> built by \<^verbatim>\<open>generate_recommendations\<close>.\<close>

record recommendation =
  template_name :: string
  template_url :: string
  match_score :: rat
  rec_style_tags :: "string list"
  rec_pros :: "string list"
  rec_cons :: "string list"
  customization_difficulty :: string
  rec_preview_image :: "string option"

text \<open>
  The configuration document \<^verbatim>\<open>ppt_designer_system.json\<close> is not part of the sources; it
  is a parameter of the model, typed by the keys the code reads: phases of sections of
  question records, the table \<^verbatim>\<open>scoring_system.weight_distribution\<close>, and the table
  \<^verbatim>\<open>implementation_roadmaps\<close> of a section.
\<close>

record roadmap =
  steps :: "json list option"
  resources :: "string option"
  customization_level :: "string option"

record config_section =
  strategic_questions :: "question list"
  implementation_roadmaps :: "(string \<rightharpoonup> roadmap) option"

record config_phase =
  sections :: "config_section list"

record config =
  workflow_phases :: "config_phase list"
  weight_distribution :: "string \<rightharpoonup> rat"

text \<open>The fields of \<^verbatim>\<open>PPTDesignerSystem\<close>.\<close>

record system =
  config :: config
  user_responses :: ledger
  recommendations :: "recommendation list"

text \<open>The dictionary \<^verbatim>\<open>plan\<close>; the key \<^verbatim>\<open>customization_level\<close> is only set in one branch.\<close>

record plan =
  timeline :: json
  experience_level :: json
  phases :: "json list"
  resources_needed :: "string list"
  estimated_hours :: int
  plan_customization_level :: "string option"

section \<open>Strings\<close>

text \<open>
  \<^verbatim>\<open>str.lower()\<close> is a function of Python's library over the whole of Unicode, and no
  part of the sources. The functions that call it take it as their first parameter
  \<open>lower\<close>, and what is proved of them holds for every such function, or names what it
  needs of it.

  \<^verbatim>\<open>lower_ascii\<close> is the one instance the development evaluates: it maps the ASCII capitals
  to the small letters and keeps every other byte. \<^verbatim>\<open>str.lower()\<close> agrees with it on the
  strings whose characters beyond ASCII have no lowercase form of their own (Korean text,
  the letter U+03D2).
\<close>

definition upper_letters :: string where
  "upper_letters = ''ABCDEFGHIJKLMNOPQRSTUVWXYZ''"

definition lower_letters :: string where
  "lower_letters = ''abcdefghijklmnopqrstuvwxyz''"

definition lower_char :: "char \<Rightarrow> char" where
  "lower_char c = (case map_of (zip upper_letters lower_letters) c of None \<Rightarrow> c | Some l \<Rightarrow> l)"

definition lower_ascii :: "string \<Rightarrow> string" where
  "lower_ascii s = map lower_char s"

text \<open>A string with one of the letters \<^verbatim>\<open>A\<close> to \<^verbatim>\<open>Z\<close> in it.\<close>

definition has_ascii_capital :: "string \<Rightarrow> bool" where
  "has_ascii_capital s = (\<exists>c \<in> set s. c \<in> set upper_letters)"

text \<open>
  The letter U+03D2 (Greek upsilon with hook symbol) in UTF-8. Unicode has it as an
  uppercase letter (general category Lu) without a lowercase form, so \<^verbatim>\<open>str.lower()\<close>
  returns it as it is.
\<close>

definition upsilon_hook :: string where
  "upsilon_hook = [CHR 0xCF, CHR 0x92]"

text \<open>The values Python can hash: every decoded JSON value but a list and a dictionary.\<close>

definition hashable :: "json \<Rightarrow> bool" where
  "hashable v = (case v of JArr xs \<Rightarrow> False | JObj kvs \<Rightarrow> False | _ \<Rightarrow> True)"

text \<open>\<^verbatim>\<open>s.split(sep)\<close> for a one-character separator: never the empty list.\<close>

fun split :: "char \<Rightarrow> string \<Rightarrow> string list" where
  "split sep [] = [[]]"
| "split sep (c # cs) =
     (if c = sep then [] # split sep cs
      else (case split sep cs of [] \<Rightarrow> [[c]] | w # ws \<Rightarrow> (c # w) # ws))"

text \<open>\<^verbatim>\<open>sep.join(parts)\<close>.\<close>

fun join :: "string \<Rightarrow> string list \<Rightarrow> string" where
  "join sep [] = []"
| "join sep [w] = w"
| "join sep (w # ws) = w @ sep @ join sep ws"

text \<open>\<^verbatim>\<open>d.get(key, [])\<close> on an optional list field.\<close>

definition get_list :: "'a list option \<Rightarrow> 'a list" where
  "get_list x = (case x of None \<Rightarrow> [] | Some xs \<Rightarrow> xs)"

text \<open>
  \<^verbatim>\<open>v in xs\<close> for a list of strings: Python compares with \<^verbatim>\<open>==\<close>, and only a string is
  equal to a string.
\<close>

fun py_in :: "json \<Rightarrow> string list \<Rightarrow> bool" where
  "py_in (JStr s) xs = (s \<in> set xs)"
| "py_in v xs = False"

section \<open>Template matching\<close>

text \<open>
  \<^verbatim>\<open>calculate_template_match_score\<close>: the four entries of \<^verbatim>\<open>match_factors\<close>, in the order
  the code fills them. The style answer is sent \<^verbatim>\<open>.lower()\<close>, which only a string has;
  any other answer raises \<^verbatim>\<open>AttributeError\<close>.
\<close>

definition style_match :: "(string \<Rightarrow> string) \<Rightarrow> system \<Rightarrow> template \<Rightarrow> error + rat" where
  "style_match lower self template_data =
     (case map_of (user_responses self) ''q2.1.1'' of
        None \<Rightarrow> Inr 0
      | Some user_style \<Rightarrow>
          (case response user_style of
             JStr a \<Rightarrow> Inr (if lower a \<in> set (get_list (style_tags template_data)) then 25 else 0)
           | _ \<Rightarrow> Inl AttributeError))"

definition color_match :: "system \<Rightarrow> template \<Rightarrow> rat" where
  "color_match self template_data =
     (case map_of (user_responses self) ''q1.3.2'' of
        None \<Rightarrow> 0
      | Some user_color \<Rightarrow>
          if py_in (response user_color) (get_list (color_schemes template_data)) then 20 else 0)"

definition functionality_match :: "system \<Rightarrow> template \<Rightarrow> rat" where
  "functionality_match self template_data =
     (case map_of (user_responses self) ''q1.1.1'' of
        None \<Rightarrow> 0
      | Some user_goal \<Rightarrow>
          if py_in (response user_goal) (get_list (suitable_for template_data)) then 30 else 0)"

definition technical_compatibility :: "system \<Rightarrow> template \<Rightarrow> rat" where
  "technical_compatibility self template_data =
     (case map_of (user_responses self) ''q2.2.1'' of
        None \<Rightarrow> 0
      | Some user_version \<Rightarrow>
          if py_in (response user_version) (get_list (compatible_versions template_data))
          then 25 else 0)"

definition calculate_template_match_score ::
  "(string \<Rightarrow> string) \<Rightarrow> system \<Rightarrow> template \<Rightarrow> error + rat" where
  "calculate_template_match_score lower self template_data =
     (case style_match lower self template_data of
        Inl e \<Rightarrow> Inl e
      | Inr st \<Rightarrow>
          Inr (min (sum_list [st, color_match self template_data,
                              functionality_match self template_data,
                              technical_compatibility self template_data]) 100))"

section \<open>The response ledger\<close>

text \<open>
  \<^verbatim>\<open>submit_response\<close>; \<open>now\<close> is the value of \<^verbatim>\<open>datetime.now().isoformat()\<close> at the
  call. The method returns \<^verbatim>\<open>True\<close> and the updated object.
\<close>

definition submit_response ::
  "system \<Rightarrow> string \<Rightarrow> string \<Rightarrow> json \<Rightarrow> string option \<Rightarrow> bool \<times> system" where
  "submit_response self now qid resp details =
     (let user_response = \<lparr>r_question_id = qid, response = resp,
                            additional_details = details, timestamp = now\<rparr>
      in (True, self\<lparr>user_responses := AList.update qid user_response (user_responses self)\<rparr>))"

section \<open>Questions of the configuration\<close>

definition get_all_questions :: "system \<Rightarrow> question list" where
  "get_all_questions self =
     concat (map (\<lambda>phase. concat (map strategic_questions (sections phase)))
                 (workflow_phases (config self)))"

text \<open>\<^verbatim>\<open>_find_question\<close>: the first question with the identifier, in the same order.\<close>

definition find_question :: "system \<Rightarrow> string \<Rightarrow> question option" where
  "find_question self qid = find (\<lambda>q_data. question_id q_data = qid) (get_all_questions self)"

section \<open>Profile scoring\<close>

text \<open>The dictionary \<^verbatim>\<open>scores\<close> as the method creates it.\<close>

definition scores_init :: "(string \<times> rat) list" where
  "scores_init =
     [(''content_goals'', 0), (''audience_context'', 0), (''design_preferences'', 0),
      (''technical_requirements'', 0), (''timeline_resources'', 0), (''scalability'', 0)]"

definition categories :: "string list" where
  "categories =
     [''content_goals'', ''audience_context'', ''design_preferences'',
      ''technical_requirements'', ''timeline_resources'', ''scalability'']"

definition category_mapping :: "(string \<times> string) list" where
  "category_mapping =
     [(''q1.1'', ''content_goals''),
      (''q1.2'', ''audience_context''),
      (''q1.3'', ''design_preferences''),
      (''q2.1'', ''design_preferences''),
      (''q2.2'', ''technical_requirements''),
      (''q3.1'', ''content_goals''),
      (''q3.2'', ''audience_context''),
      (''q4.1'', ''technical_requirements''),
      (''q4.2'', ''technical_requirements''),
      (''q5.1'', ''timeline_resources''),
      (''q5.2'', ''scalability'')]"

text \<open>\<^verbatim>\<open>'.'.join(question_id.split('.')[:2])\<close>.\<close>

definition prefix_of :: "string \<Rightarrow> string" where
  "prefix_of qid = join ''.'' (take 2 (split (CHR ''.'') qid))"

text \<open>\<^verbatim>\<open>scores[category] += x\<close>; a key that is not in the dictionary raises.\<close>

definition add_score ::
  "string \<Rightarrow> rat \<Rightarrow> (string \<times> rat) list \<Rightarrow> error + (string \<times> rat) list" where
  "add_score category x scores =
     (case map_of scores category of
        None \<Rightarrow> Inl (KeyError category)
      | Some v \<Rightarrow> Inr (AList.update category (v + x) scores))"

text \<open>The loop over \<^verbatim>\<open>self.user_responses.items()\<close>.\<close>

fun score_responses ::
  "system \<Rightarrow> ledger \<Rightarrow> (string \<times> rat) list \<Rightarrow> error + (string \<times> rat) list" where
  "score_responses self [] scores = Inr scores"
| "score_responses self ((qid, r) # rest) scores =
     (case map_of category_mapping (prefix_of qid) of
        None \<Rightarrow> score_responses self rest scores
      | Some category \<Rightarrow>
          if category \<noteq> [] \<and> truthy (response r) then
            (case find_question self qid of
               None \<Rightarrow> score_responses self rest scores
             | Some q \<Rightarrow>
                 (case add_score category (of_int (weight q) / 10) scores of
                    Inl e \<Rightarrow> Inl e
                  | Inr scores' \<Rightarrow> score_responses self rest scores'))
          else score_responses self rest scores)"

text \<open>
  The loop \<^verbatim>\<open>for category in scores\<close>: \<^verbatim>\<open>max_scores[category]\<close> raises when the
  configuration has no maximum for the category.
\<close>

fun clamp_scores ::
  "(string \<rightharpoonup> rat) \<Rightarrow> string list \<Rightarrow> (string \<times> rat) list \<Rightarrow> error + (string \<times> rat) list" where
  "clamp_scores max_scores [] scores = Inr scores"
| "clamp_scores max_scores (category # rest) scores =
     (case max_scores category of
        None \<Rightarrow> Inl (KeyError category)
      | Some max_score \<Rightarrow>
          (case map_of scores category of
             None \<Rightarrow> Inl (KeyError category)
           | Some v \<Rightarrow>
               clamp_scores max_scores rest
                 (AList.update category (min (v * 2) max_score) scores)))"

definition calculate_profile_score :: "system \<Rightarrow> error + (string \<times> rat) list" where
  "calculate_profile_score self =
     (let max_scores = weight_distribution (config self)
      in case score_responses self (user_responses self) scores_init of
           Inl e \<Rightarrow> Inl e
         | Inr scores \<Rightarrow> clamp_scores max_scores (map fst scores) scores)"

section \<open>Recommendations\<close>

text \<open>
  \<^verbatim>\<open>list.sort(key=k, reverse=True)\<close>: the list is reversed, sorted by a stable ascending
  sort, and reversed again.
\<close>

definition sort_reverse :: "('a \<Rightarrow> 'k::linorder) \<Rightarrow> 'a list \<Rightarrow> 'a list" where
  "sort_reverse k xs = rev (sort_key k (rev xs))"

definition make_recommendation :: "template \<Rightarrow> rat \<Rightarrow> recommendation" where
  "make_recommendation template score =
     \<lparr>template_name = name template,
      template_url = url template,
      match_score = score,
      rec_style_tags = get_list (style_tags template),
      rec_pros = get_list (pros template),
      rec_cons = get_list (cons template),
      customization_difficulty = (case difficulty template of None \<Rightarrow> ''medium'' | Some d \<Rightarrow> d),
      rec_preview_image = preview_image template\<rparr>"

text \<open>The loop over \<^verbatim>\<open>templates_database\<close>; the first exception ends it.\<close>

fun build_recommendations ::
  "(string \<Rightarrow> string) \<Rightarrow> system \<Rightarrow> template list \<Rightarrow> error + recommendation list" where
  "build_recommendations lower self [] = Inr []"
| "build_recommendations lower self (template # rest) =
     (case calculate_template_match_score lower self template of
        Inl e \<Rightarrow> Inl e
      | Inr score \<Rightarrow>
          (case build_recommendations lower self rest of
             Inl e \<Rightarrow> Inl e
           | Inr recs \<Rightarrow> Inr (make_recommendation template score # recs)))"

text \<open>
  The method returns the first ten and keeps the whole list in the object. When a score
  raises, the method ends before it assigns the list: there is no new object then, and
  the caller's is as it was.
\<close>

definition generate_recommendations ::
  "(string \<Rightarrow> string) \<Rightarrow> system \<Rightarrow> template list
     \<Rightarrow> error + (recommendation list \<times> system)" where
  "generate_recommendations lower self templates_database =
     (case build_recommendations lower self templates_database of
        Inl e \<Rightarrow> Inl e
      | Inr recs \<Rightarrow>
          (let ranked = sort_reverse match_score recs
           in Inr (take 10 ranked, self\<lparr>recommendations := ranked\<rparr>)))"

section \<open>The implementation plan\<close>

text \<open>The Korean literals of the method, as UTF-8 bytes: one day, one week, one month.\<close>

definition timeline_1day :: string where
  "timeline_1day = [CHR ''1'', CHR 0xEC, CHR 0x9D, CHR 0xBC]"

definition timeline_1week :: string where
  "timeline_1week = [CHR ''1'', CHR 0xEC, CHR 0xA3, CHR 0xBC]"

definition timeline_1month :: string where
  "timeline_1month = [CHR ''1'', CHR 0xEA, CHR 0xB0, CHR 0x9C, CHR 0xEC, CHR 0x9B, CHR 0x94]"

text \<open>The default of \<^verbatim>\<open>experience_level\<close> (intermediate).\<close>

definition experience_default :: string where
  "experience_default =
     [CHR 0xEC, CHR 0xA4, CHR 0x91, CHR 0xEA, CHR 0xB8, CHR 0x89, CHR 0xEC, CHR 0x9E,
      CHR 0x90]"

definition timeline_table :: "(string \<times> string) list" where
  "timeline_table =
     [(timeline_1day, ''tight_timeline_1day''),
      (timeline_1week, ''standard_timeline_1week''),
      (timeline_1month, ''extended_timeline_1month'')]"

text \<open>
  \<^verbatim>\<open>{...}.get(timeline['response'], 'standard_timeline_1week')\<close>: the answer is hashed, and a
  list or a dictionary cannot be (\<^verbatim>\<open>TypeError\<close>); the keys are strings, so no other value
  than a string is equal to one of them.
\<close>

definition timeline_key :: "json \<Rightarrow> error + string" where
  "timeline_key v =
     (case v of
        JStr s \<Rightarrow>
          Inr (case map_of timeline_table s of None \<Rightarrow> ''standard_timeline_1week'' | Some k \<Rightarrow> k)
      | JArr xs \<Rightarrow> Inl TypeError
      | JObj kvs \<Rightarrow> Inl TypeError
      | _ \<Rightarrow> Inr ''standard_timeline_1week'')"

text \<open>
  \<^verbatim>\<open>self.config['workflow_phases'][4]['sections'][0]['implementation_roadmaps']\<close>: the index
  of a list may be out of range and the key may be absent.
\<close>

definition implementation_roadmaps_of :: "config \<Rightarrow> error + (string \<rightharpoonup> roadmap)" where
  "implementation_roadmaps_of cfg =
     (if length (workflow_phases cfg) \<le> 4 then Inl IndexError
      else (case sections (workflow_phases cfg ! 4) of
              [] \<Rightarrow> Inl IndexError
            | sec # others \<Rightarrow>
                (case implementation_roadmaps sec of
                   None \<Rightarrow> Inl (KeyError ''implementation_roadmaps'')
                 | Some roadmaps \<Rightarrow> Inr roadmaps)))"

text \<open>The empty dictionary \<^verbatim>\<open>{}\<close>, the default of the lookup of the roadmap.\<close>

definition empty_roadmap :: roadmap where
  "empty_roadmap = \<lparr>steps = None, resources = None, customization_level = None\<rparr>"

text \<open>The three assignments to \<^verbatim>\<open>plan\<close> from the roadmap.\<close>

definition apply_roadmap :: "roadmap \<Rightarrow> plan \<Rightarrow> plan" where
  "apply_roadmap roadmap p =
     p\<lparr>phases := get_list (steps roadmap),
       resources_needed := [case resources roadmap of None \<Rightarrow> [] | Some r \<Rightarrow> r],
       plan_customization_level :=
         Some (case customization_level roadmap of None \<Rightarrow> ''moderate'' | Some c \<Rightarrow> c)\<rparr>"

definition generate_implementation_plan :: "system \<Rightarrow> error + plan" where
  "generate_implementation_plan self =
     (let timeline_r = map_of (user_responses self) ''q5.1.1'';
          experience_r = map_of (user_responses self) ''q5.1.2'';
          p = \<lparr>timeline = (case timeline_r of None \<Rightarrow> JStr timeline_1week | Some t \<Rightarrow> response t),
               experience_level =
                 (case experience_r of None \<Rightarrow> JStr experience_default | Some x \<Rightarrow> response x),
               phases = [],
               resources_needed = [],
               estimated_hours = 0,
               plan_customization_level = None\<rparr>
      in case timeline_r of
           None \<Rightarrow> Inr p
         | Some t \<Rightarrow>
             (case timeline_key (response t) of
                Inl e \<Rightarrow> Inl e
              | Inr k \<Rightarrow>
                  (case implementation_roadmaps_of (config self) of
                     Inl e \<Rightarrow> Inl e
                   | Inr roadmaps \<Rightarrow>
                       Inr (apply_roadmap
                              (case roadmaps k of None \<Rightarrow> empty_roadmap | Some r \<Rightarrow> r) p))))"

section \<open>Progress\<close>

definition get_progress_percentage :: "system \<Rightarrow> rat" where
  "get_progress_percentage self =
     (let all_questions = get_all_questions self;
          required_questions =
            filter (\<lambda>q. case required q of None \<Rightarrow> False | Some b \<Rightarrow> b) all_questions;
          answered_required =
            length (filter (\<lambda>q. map_of (user_responses self) (question_id q) \<noteq> None)
                           required_questions)
      in if required_questions = [] then 100
         else (of_nat answered_required / of_nat (length required_questions)) * 100)"

section \<open>The endpoint \<^verbatim>\<open>POST /api/responses\<close>\<close>

text \<open>
  The handler passes the decoded values of the body to \<^verbatim>\<open>submit_response\<close> as they
  are, whatever their type, so there the dictionary of responses is keyed by any value
  Python can hash. An entry and the dictionary, with JSON values where the method declares
  strings.
\<close>

record raw_response =
  raw_question_id :: json
  raw_answer :: json
  raw_additional_details :: json
  raw_timestamp :: string

type_synonym raw_ledger = "(json \<times> raw_response) list"

text \<open>
  Two keys of a dictionary are the same key when Python finds them equal: numbers by
  their value, and \<^verbatim>\<open>True\<close> is 1, \<^verbatim>\<open>False\<close> is 0.
\<close>

definition py_key :: "json \<Rightarrow> json" where
  "py_key k = (case k of JBool b \<Rightarrow> JNum (if b then 1 else 0) | _ \<Rightarrow> k)"

text \<open>\<^verbatim>\<open>d[k] = v\<close>: a key that is there keeps its place and its own key object.\<close>

fun dict_assign :: "json \<Rightarrow> 'v \<Rightarrow> (json \<times> 'v) list \<Rightarrow> (json \<times> 'v) list" where
  "dict_assign k v [] = [(k, v)]"
| "dict_assign k v ((k', v') # rest) =
     (if py_key k' = py_key k then (k', v) # rest else (k', v') # dict_assign k v rest)"

text \<open>\<^verbatim>\<open>d.get(k)\<close> on such a dictionary.\<close>

fun dict_get :: "json \<Rightarrow> (json \<times> 'v) list \<Rightarrow> 'v option" where
  "dict_get k [] = None"
| "dict_get k ((k', v) # rest) = (if py_key k' = py_key k then Some v else dict_get k rest)"

text \<open>
  \<^verbatim>\<open>submit_response\<close> on the values the handler passes: the entry is built, and the
  assignment to the dictionary hashes the key, which raises \<^verbatim>\<open>TypeError\<close> for a list or
  a dictionary.
\<close>

definition submit_response_any ::
  "raw_ledger \<Rightarrow> string \<Rightarrow> json \<Rightarrow> json \<Rightarrow> json \<Rightarrow> error + (bool \<times> raw_ledger)" where
  "submit_response_any responses now qid resp details =
     (let user_response = \<lparr>raw_question_id = qid, raw_answer = resp,
                            raw_additional_details = details, raw_timestamp = now\<rparr>
      in if hashable qid then Inr (True, dict_assign qid user_response responses)
         else Inl TypeError)"

text \<open>
  The ledger of the typed model as such a dictionary: on a string identifier and a string
  or absent detail, \<^verbatim>\<open>submit_response_any\<close> is \<^verbatim>\<open>submit_response\<close>.
\<close>

definition detail_json :: "string option \<Rightarrow> json" where
  "detail_json d = (case d of None \<Rightarrow> JNull | Some x \<Rightarrow> JStr x)"

definition to_raw :: "user_response \<Rightarrow> raw_response" where
  "to_raw r =
     \<lparr>raw_question_id = JStr (r_question_id r), raw_answer = response r,
      raw_additional_details = detail_json (additional_details r),
      raw_timestamp = timestamp r\<rparr>"

definition raw_ledger_of :: "ledger \<Rightarrow> raw_ledger" where
  "raw_ledger_of responses = map (\<lambda>(k, r). (JStr k, to_raw r)) responses"

text \<open>
  The three replies of the handler, each with the fields of its JSON object: status 200
  with \<^verbatim>\<open>success\<close> and \<^verbatim>\<open>message\<close>, status 400 with the fixed \<^verbatim>\<open>error\<close>, status 500
  with the text of the exception that was caught (here the exception itself, or nothing
  when it is one of the framework's).
\<close>

datatype reply =
    Submitted bool string
  | Rejected string
  | Failed "error option"

fun status :: "reply \<Rightarrow> nat" where
  "status (Submitted ok msg) = 200"
| "status (Rejected msg) = 400"
| "status (Failed e) = 500"

fun success :: "reply \<Rightarrow> bool" where
  "success (Submitted ok msg) = ok"
| "success (Rejected msg) = False"
| "success (Failed e) = False"

text \<open>\<^verbatim>\<open>data.get(key)\<close> on a decoded JSON object: \<^verbatim>\<open>None\<close> for a key that is absent.\<close>

definition py_get :: "(string \<times> json) list \<Rightarrow> string \<Rightarrow> json" where
  "py_get kvs k = (case map_of kvs k of None \<Rightarrow> JNull | Some v \<Rightarrow> v)"

text \<open>
  The handler, on the dictionary of the global \<^verbatim>\<open>system\<close>. Its input is what
  \<^verbatim>\<open>request.get_json()\<close> gives: a decoded value, or nothing when that call raises. A
  value that is not an object has no \<^verbatim>\<open>get\<close> (\<^verbatim>\<open>AttributeError\<close>). \<^verbatim>\<open>not question_id\<close>
  is Python's truth value of any decoded value; \<^verbatim>\<open>response is None\<close> holds of \<^verbatim>\<open>None\<close>
  only. Every exception in the \<^verbatim>\<open>try\<close> block is caught and answered with status 500.
\<close>

definition submit_response_route ::
  "raw_ledger \<Rightarrow> string \<Rightarrow> json option \<Rightarrow> reply \<times> raw_ledger" where
  "submit_response_route responses now body =
     (case body of
        None \<Rightarrow> (Failed None, responses)
      | Some (JObj data) \<Rightarrow>
          (let question_id = py_get data ''question_id'';
               resp = py_get data ''response'';
               additional_details = py_get data ''additional_details''
           in if \<not> truthy question_id \<or> resp = JNull
              then (Rejected ''question_id and response are required'', responses)
              else (case submit_response_any responses now question_id resp additional_details of
                      Inl e \<Rightarrow> (Failed (Some e), responses)
                    | Inr (ok, responses') \<Rightarrow>
                        (Submitted ok ''Response submitted successfully'', responses')))
      | Some other \<Rightarrow> (Failed (Some AttributeError), responses))"

section \<open>The mock catalog\<close>

text \<open>The Korean strings of \<^verbatim>\<open>MOCK_TEMPLATES\<close>, as UTF-8 bytes, named by their meaning.\<close>

definition goal_education :: string where
  "goal_education =
     [CHR 0xEA, CHR 0xB5, CHR 0x90, CHR 0xEC, CHR 0x9C, CHR 0xA1]"

definition goal_information :: string where
  "goal_information =
     [CHR 0xEC, CHR 0xA0, CHR 0x95, CHR 0xEB, CHR 0xB3, CHR 0xB4, CHR '' '',
      CHR 0xEC, CHR 0xA0, CHR 0x84, CHR 0xEB, CHR 0x8B, CHR 0xAC]"

definition goal_presentation :: string where
  "goal_presentation =
     [CHR 0xEB, CHR 0xB0, CHR 0x9C, CHR 0xED, CHR 0x91, CHR 0x9C]"

definition pro_clean_design :: string where
  "pro_clean_design =
     [CHR 0xEA, CHR 0xB9, CHR 0x94, CHR 0xEB, CHR 0x81, CHR 0x94, CHR 0xED,
      CHR 0x95, CHR 0x9C, CHR '' '', CHR 0xEB, CHR 0x94, CHR 0x94, CHR 0xEC,
      CHR 0x9E, CHR 0x90, CHR 0xEC, CHR 0x9D, CHR 0xB8]"

definition pro_easy_editing :: string where
  "pro_easy_editing =
     [CHR 0xEC, CHR 0x89, CHR 0xAC, CHR 0xEC, CHR 0x9A, CHR 0xB4, CHR '' '',
      CHR 0xED, CHR 0x8E, CHR 0xB8, CHR 0xEC, CHR 0xA7, CHR 0x91]"

definition pro_many_layouts :: string where
  "pro_many_layouts =
     [CHR 0xEB, CHR 0x8B, CHR 0xA4, CHR 0xEC, CHR 0x96, CHR 0x91, CHR 0xED,
      CHR 0x95, CHR 0x9C, CHR '' '', CHR 0xEB, CHR 0xA0, CHR 0x88, CHR 0xEC,
      CHR 0x9D, CHR 0xB4, CHR 0xEC, CHR 0x95, CHR 0x84, CHR 0xEC, CHR 0x9B,
      CHR 0x83]"

definition con_limited_animation :: string where
  "con_limited_animation =
     [CHR 0xEC, CHR 0x95, CHR 0xA0, CHR 0xEB, CHR 0x8B, CHR 0x88, CHR 0xEB,
      CHR 0xA9, CHR 0x94, CHR 0xEC, CHR 0x9D, CHR 0xB4, CHR 0xEC, CHR 0x85,
      CHR 0x98, CHR '' '', CHR 0xEC, CHR 0xA0, CHR 0x9C, CHR 0xED, CHR 0x95,
      CHR 0x9C, CHR 0xEC, CHR 0xA0, CHR 0x81]"

definition pro_student_friendly :: string where
  "pro_student_friendly =
     [CHR 0xED, CHR 0x95, CHR 0x99, CHR 0xEC, CHR 0x83, CHR 0x9D, CHR '' '',
      CHR 0xEC, CHR 0xB9, CHR 0x9C, CHR 0xED, CHR 0x99, CHR 0x94, CHR 0xEC,
      CHR 0xA0, CHR 0x81]"

definition pro_rich_visuals :: string where
  "pro_rich_visuals =
     [CHR 0xEC, CHR 0x8B, CHR 0x9C, CHR 0xEA, CHR 0xB0, CHR 0x81, CHR 0xEC,
      CHR 0xA0, CHR 0x81, CHR '' '', CHR 0xEC, CHR 0x9A, CHR 0x94, CHR 0xEC,
      CHR 0x86, CHR 0x8C, CHR '' '', CHR 0xED, CHR 0x92, CHR 0x8D, CHR 0xEB,
      CHR 0xB6, CHR 0x80]"

definition pro_accessible :: string where
  "pro_accessible =
     [CHR 0xEC, CHR 0xA0, CHR 0x91, CHR 0xEA, CHR 0xB7, CHR 0xBC, CHR 0xEC,
      CHR 0x84, CHR 0xB1, CHR '' '', CHR 0xEC, CHR 0x9A, CHR 0xB0, CHR 0xEC,
      CHR 0x88, CHR 0x98]"

definition con_large_file :: string where
  "con_large_file =
     [CHR 0xED, CHR 0x8C, CHR 0x8C, CHR 0xEC, CHR 0x9D, CHR 0xBC, CHR '' '',
      CHR 0xED, CHR 0x81, CHR 0xAC, CHR 0xEA, CHR 0xB8, CHR 0xB0, CHR '' '',
      CHR 0xED, CHR 0x81, CHR 0xBC]"

definition mock_template_1 :: template where
  "mock_template_1 =
     \<lparr>name = ''Minimal Beige Professional'',
      url = ''https://example.com/template1'',
      style_tags = Some [''minimal'', ''modern'', ''professional''],
      color_schemes = Some [''beige_orange''],
      suitable_for = Some [goal_education, goal_information],
      compatible_versions = Some [''2019'', ''2021'', ''Microsoft 365''],
      pros = Some [pro_clean_design, pro_easy_editing, pro_many_layouts],
      cons = Some [con_limited_animation],
      difficulty = Some ''easy'',
      preview_image = Some ''https://example.com/preview1.jpg''\<rparr>"

definition mock_template_2 :: template where
  "mock_template_2 =
     \<lparr>name = ''Modern Education Template'',
      url = ''https://example.com/template2'',
      style_tags = Some [''modern'', ''creative'', ''educational''],
      color_schemes = Some [''beige_orange'', ''blue_gray''],
      suitable_for = Some [goal_education, goal_presentation],
      compatible_versions = Some [''2016'', ''2019'', ''2021'', ''Microsoft 365''],
      pros = Some [pro_student_friendly, pro_rich_visuals, pro_accessible],
      cons = Some [con_large_file],
      difficulty = Some ''medium'',
      preview_image = Some ''https://example.com/preview2.jpg''\<rparr>"

definition MOCK_TEMPLATES :: "template list" where
  "MOCK_TEMPLATES = [mock_template_1, mock_template_2]"

section \<open>The claims in the specification's words\<close>

text \<open>The recorded answer to a question, if any.\<close>

definition answer_of :: "system \<Rightarrow> string \<Rightarrow> json option" where
  "answer_of self qid = map_option response (map_of (user_responses self) qid)"

text \<open>
  The four checks of template matching: the style answer, lowercased, is one of the style
  tags; the colour, goal and version answers are members of the template's lists.
\<close>

definition style_check :: "(string \<Rightarrow> string) \<Rightarrow> system \<Rightarrow> template \<Rightarrow> bool" where
  "style_check lower self t =
     (case answer_of self ''q2.1.1'' of
        Some (JStr a) \<Rightarrow> lower a \<in> set (get_list (style_tags t))
      | _ \<Rightarrow> False)"

definition color_check :: "system \<Rightarrow> template \<Rightarrow> bool" where
  "color_check self t =
     (case answer_of self ''q1.3.2'' of
        Some (JStr a) \<Rightarrow> a \<in> set (get_list (color_schemes t))
      | _ \<Rightarrow> False)"

definition goal_check :: "system \<Rightarrow> template \<Rightarrow> bool" where
  "goal_check self t =
     (case answer_of self ''q1.1.1'' of
        Some (JStr a) \<Rightarrow> a \<in> set (get_list (suitable_for t))
      | _ \<Rightarrow> False)"

definition version_check :: "system \<Rightarrow> template \<Rightarrow> bool" where
  "version_check self t =
     (case answer_of self ''q2.2.1'' of
        Some (JStr a) \<Rightarrow> a \<in> set (get_list (compatible_versions t))
      | _ \<Rightarrow> False)"

text \<open>The sum of the four fixed contributions, clamped to at most 100.\<close>

definition match_score_stated :: "(string \<Rightarrow> string) \<Rightarrow> system \<Rightarrow> template \<Rightarrow> rat" where
  "match_score_stated lower self t =
     min ((if style_check lower self t then 25 else 0) + (if color_check self t then 20 else 0)
          + (if goal_check self t then 30 else 0) + (if version_check self t then 25 else 0))
         100"

text \<open>The style answer is absent or a string: the answers \<^verbatim>\<open>.lower()\<close> accepts.\<close>

definition style_answer_ok :: "system \<Rightarrow> bool" where
  "style_answer_ok self =
     (case answer_of self ''q2.1.1'' of None \<Rightarrow> True | Some (JStr a) \<Rightarrow> True | Some v \<Rightarrow> False)"

text \<open>The questions flagged required, and whether a question has an entry in the ledger.\<close>

definition required_questions :: "system \<Rightarrow> question list" where
  "required_questions self = filter (\<lambda>q. required q = Some True) (get_all_questions self)"

definition answered :: "system \<Rightarrow> question \<Rightarrow> bool" where
  "answered self q = (question_id q \<in> fst ` set (user_responses self))"

text \<open>One recommendation for every template of the catalog, in the order of the catalog.\<close>

definition catalog_recommendations ::
  "(string \<Rightarrow> string) \<Rightarrow> system \<Rightarrow> template list \<Rightarrow> recommendation list" where
  "catalog_recommendations lower self db =
     map (\<lambda>t. make_recommendation t (match_score_stated lower self t)) db"

text \<open>
  The roadmap a timeline answer selects: the three-entry table, and the standard one-week
  roadmap for every other value.
\<close>

definition roadmap_name_stated :: "json \<Rightarrow> string" where
  "roadmap_name_stated v =
     (if v = JStr timeline_1day then ''tight_timeline_1day''
      else if v = JStr timeline_1week then ''standard_timeline_1week''
      else if v = JStr timeline_1month then ''extended_timeline_1month''
      else ''standard_timeline_1week'')"

text \<open>The roadmap of a name in the configured table; an absent one has no entries.\<close>

definition roadmap_named :: "(string \<rightharpoonup> roadmap) \<Rightarrow> string \<Rightarrow> roadmap" where
  "roadmap_named roadmaps k = (case roadmaps k of None \<Rightarrow> empty_roadmap | Some r \<Rightarrow> r)"

text \<open>
  A plan carries a roadmap: its step list, a resource list of one element, and a
  customization-level label.
\<close>

definition follows_roadmap :: "plan \<Rightarrow> roadmap \<Rightarrow> bool" where
  "follows_roadmap p r =
     (phases p = get_list (steps r)
      \<and> resources_needed p = [case resources r of None \<Rightarrow> [] | Some x \<Rightarrow> x]
      \<and> plan_customization_level p =
          Some (case customization_level r of None \<Rightarrow> ''moderate'' | Some c \<Rightarrow> c))"

text \<open>
  Profile scoring. A response counts for a category when its answer is truthy and the
  prefix of its identifier is mapped to the category by the table.
\<close>

definition qualifies :: "string \<Rightarrow> string \<times> user_response \<Rightarrow> bool" where
  "qualifies c e =
     (truthy (response (snd e)) \<and> map_of category_mapping (prefix_of (fst e)) = Some c)"

text \<open>
  The claim as it is written: every response that counts for the category adds the tenth
  of the weight of its question, and every other response adds nothing. Where the
  configuration has no question of the identifier there is no weight to add, and the
  computation the claim describes has no result (\<^const>\<open>None\<close>).
\<close>

definition contribution_stated :: "system \<Rightarrow> string \<Rightarrow> string \<times> user_response \<Rightarrow> rat option" where
  "contribution_stated self c e =
     (if qualifies c e
      then map_option (\<lambda>q. of_int (weight q) / 10) (find_question self (fst e))
      else Some 0)"

primrec sum_options :: "rat option list \<Rightarrow> rat option" where
  "sum_options [] = Some 0"
| "sum_options (x # xs) =
     (case x of None \<Rightarrow> None | Some v \<Rightarrow> map_option ((+) v) (sum_options xs))"

definition total_stated :: "system \<Rightarrow> string \<Rightarrow> rat option" where
  "total_stated self c = sum_options (map (contribution_stated self c) (user_responses self))"

definition profile_score_stated :: "system \<Rightarrow> (string \<times> rat) list option" where
  "profile_score_stated self =
     those (map (\<lambda>c. case total_stated self c of
                        None \<Rightarrow> None
                      | Some t \<Rightarrow>
                          map_option (\<lambda>m. (c, min (t * 2) m))
                            (weight_distribution (config self) c))
                categories)"

text \<open>
  The claim as amended: a response adds to the category only when, besides, the
  configuration has a question of its identifier.
\<close>

definition contribution_amended :: "system \<Rightarrow> string \<Rightarrow> string \<times> user_response \<Rightarrow> rat" where
  "contribution_amended self c e =
     (if qualifies c e
      then (case find_question self (fst e) of None \<Rightarrow> 0 | Some q \<Rightarrow> of_int (weight q) / 10)
      else 0)"

definition total_amended :: "system \<Rightarrow> string \<Rightarrow> rat" where
  "total_amended self c = sum_list (map (contribution_amended self c) (user_responses self))"

text \<open>
  The endpoint in the claim's words: the question identifier of the body is missing or
  empty, or its response is absent. A body that is no object has no question identifier.
\<close>

definition missing_or_empty :: "json \<Rightarrow> bool" where
  "missing_or_empty v = (v = JNull \<or> v = JStr [] \<or> v = JArr [] \<or> v = JObj [])"

definition rejected_stated :: "json option \<Rightarrow> bool" where
  "rejected_stated body =
     (case body of
        Some (JObj data) \<Rightarrow>
          missing_or_empty (py_get data ''question_id'') \<or> py_get data ''response'' = JNull
      | _ \<Rightarrow> True)"

section \<open>Concrete inputs\<close>

text \<open>The object after \<^verbatim>\<open>__init__\<close> has loaded a configuration.\<close>

definition new_system :: "config \<Rightarrow> system" where
  "new_system cfg = \<lparr>config = cfg, user_responses = [], recommendations = []\<rparr>"

definition empty_config :: config where
  "empty_config = \<lparr>workflow_phases = [], weight_distribution = Map.empty\<rparr>"

text \<open>
  Four submissions: the style \<^verbatim>\<open>Minimal\<close>, the colour \<^verbatim>\<open>beige_orange\<close>, the goal
  education and the version \<^verbatim>\<open>2019\<close>.
\<close>

definition system_four_answers :: system where
  "system_four_answers =
     snd (submit_response
       (snd (submit_response
         (snd (submit_response
           (snd (submit_response (new_system empty_config)
                   ''t1'' ''q2.1.1'' (JStr ''Minimal'') None))
           ''t2'' ''q1.3.2'' (JStr ''beige_orange'') None))
         ''t3'' ''q1.1.1'' (JStr goal_education) None))
       ''t4'' ''q2.2.1'' (JStr ''2019'') None)"

text \<open>One submission more, to a question that template matching does not read.\<close>

definition system_five_answers :: system where
  "system_five_answers =
     snd (submit_response system_four_answers ''t5'' ''q5.1.2'' (JStr ''expert'') (Some ''note''))"

text \<open>The style question answered by the JSON value \<^verbatim>\<open>true\<close>.\<close>

definition system_style_true :: system where
  "system_style_true =
     snd (submit_response (new_system empty_config) ''t1'' ''q2.1.1'' (JBool True) None)"

text \<open>The colour question answered \<^verbatim>\<open>Beige_Orange\<close>, with a capital letter in it.\<close>

definition system_color_capital :: system where
  "system_color_capital =
     snd (submit_response (new_system empty_config) ''t1'' ''q1.3.2'' (JStr ''Beige_Orange'') None)"

text \<open>
  A small configuration document in the shape the code reads: five phases, questions in
  the first, second and fifth, the six maxima, and the three roadmaps in the first section
  of the fifth phase.
\<close>

definition mk_question :: "string \<Rightarrow> bool option \<Rightarrow> int \<Rightarrow> question" where
  "mk_question qid req w =
     \<lparr>question_id = qid, question_text = ''?'', question_type = ''single_choice'',
      required = req, weight = w, options = None, follow_up = None, placeholder = None\<rparr>"

definition sample_roadmaps :: "string \<rightharpoonup> roadmap" where
  "sample_roadmaps =
     map_of
       [(''tight_timeline_1day'',
           \<lparr>steps = Some [JStr ''pick'', JStr ''fill''], resources = Some ''one template'',
            customization_level = Some ''minimal''\<rparr>),
        (''standard_timeline_1week'',
           \<lparr>steps = Some [JStr ''pick'', JStr ''adapt'', JStr ''review''],
            resources = Some ''template and icons'', customization_level = None\<rparr>),
        (''extended_timeline_1month'',
           \<lparr>steps = Some [JStr ''design'', JStr ''build'', JStr ''test'', JStr ''polish''],
            resources = None, customization_level = Some ''extensive''\<rparr>)]"

definition sample_config :: config where
  "sample_config =
     \<lparr>workflow_phases =
        [\<lparr>sections =
            [\<lparr>strategic_questions =
                [mk_question ''q1.1.1'' (Some True) 10, mk_question ''q1.3.2'' None 8],
              implementation_roadmaps = None\<rparr>]\<rparr>,
         \<lparr>sections =
            [\<lparr>strategic_questions = [mk_question ''q2.1.1'' (Some True) 300],
              implementation_roadmaps = None\<rparr>]\<rparr>,
         \<lparr>sections = []\<rparr>,
         \<lparr>sections = []\<rparr>,
         \<lparr>sections =
            [\<lparr>strategic_questions = [mk_question ''q5.1.1'' (Some False) 5],
              implementation_roadmaps = Some sample_roadmaps\<rparr>]\<rparr>],
      weight_distribution =
        map_of
          [(''content_goals'', 25), (''audience_context'', 20), (''design_preferences'', 20),
           (''technical_requirements'', 15), (''timeline_resources'', 10),
           (''scalability'', 10)]\<rparr>"

text \<open>
  Request bodies: the answer \<^verbatim>\<open>false\<close>, the answer \<^verbatim>\<open>0\<close>, the identifier \<^verbatim>\<open>0\<close>,
  an identifier that is a list, and no response.
\<close>

definition body_false :: json where
  "body_false = JObj [(''question_id'', JStr ''q3.1.4''), (''response'', JBool False)]"

definition body_zero :: json where
  "body_zero =
     JObj [(''question_id'', JStr ''q3.1.5''), (''response'', JNum 0),
           (''additional_details'', JStr ''none'')]"

definition body_id_zero :: json where
  "body_id_zero = JObj [(''question_id'', JNum 0), (''response'', JStr ''yes'')]"

definition body_id_list :: json where
  "body_id_list =
     JObj [(''question_id'', JArr [JStr ''q1.1.1'']), (''response'', JStr ''yes'')]"

definition body_no_response :: json where
  "body_no_response = JObj [(''question_id'', JStr ''q3.1.5'')]"

text \<open>The style question answered by the letter U+03D2, and a template with that tag.\<close>

definition system_style_upsilon :: system where
  "system_style_upsilon =
     snd (submit_response (new_system empty_config) ''t1'' ''q2.1.1'' (JStr upsilon_hook) None)"

definition template_upsilon :: template where
  "template_upsilon = mock_template_1\<lparr>style_tags := Some [upsilon_hook]\<rparr>"

text \<open>The sample configuration with one and with both of its required questions answered.\<close>

definition sample_half :: system where
  "sample_half =
     snd (submit_response (new_system sample_config) ''t1'' ''q1.1.1'' (JStr goal_education) None)"

definition sample_full :: system where
  "sample_full = snd (submit_response sample_half ''t2'' ''q2.1.1'' (JStr ''Minimal'') None)"

text \<open>A catalog of three: the second mock template, the first, and a copy of the second.\<close>

definition catalog_three :: "template list" where
  "catalog_three = [mock_template_2, mock_template_1, mock_template_2\<lparr>name := ''Copy''\<rparr>]"

text \<open>The sample configuration with one answer to the timeline question.\<close>

definition sample_timeline :: "json \<Rightarrow> system" where
  "sample_timeline v =
     snd (submit_response (new_system sample_config) ''t1'' ''q5.1.1'' v None)"

text \<open>
  The sample configuration with a truthy answer to \<^verbatim>\<open>q1.1.9\<close>, which is in no phase
  of it.
\<close>

definition sample_unknown :: system where
  "sample_unknown =
     snd (submit_response (new_system sample_config) ''t1'' ''q1.1.9'' (JStr ''yes'') None)"

text \<open>
  The sample configuration with five answers: two that count, one with a falsy answer,
  one to a question of no mapped prefix, one to a question the configuration lacks.
\<close>

definition sample_scored :: system where
  "sample_scored =
     snd (submit_response
       (snd (submit_response
         (snd (submit_response sample_full ''t3'' ''q1.3.2'' (JStr []) None))
         ''t4'' ''q9.1.1'' (JBool True) None))
       ''t5'' ''q1.1.9'' (JStr ''yes'') None)"

section \<open>Template matching: properties\<close>

lemma style_match_eq:
  "style_match lower self t =
     (if style_answer_ok self then Inr (if style_check lower self t then 25 else 0)
      else Inl AttributeError)"
  by (auto simp: style_match_def style_answer_ok_def style_check_def answer_of_def
      split: option.splits json.splits)

lemma py_in_iff: "py_in v xs = (case v of JStr a \<Rightarrow> a \<in> set xs | _ \<Rightarrow> False)"
  by (cases v) auto

lemma color_match_eq: "color_match self t = (if color_check self t then 20 else 0)"
  by (auto simp: color_match_def color_check_def answer_of_def py_in_iff split: option.splits json.splits)

lemma functionality_match_eq: "functionality_match self t = (if goal_check self t then 30 else 0)"
  by (auto simp: functionality_match_def goal_check_def answer_of_def py_in_iff split: option.splits json.splits)

lemma technical_compatibility_eq: "technical_compatibility self t = (if version_check self t then 25 else 0)"
  by (auto simp: technical_compatibility_def version_check_def answer_of_def py_in_iff split: option.splits json.splits)

lemma style_check_ok: "style_check lower self t \<Longrightarrow> style_answer_ok self"
  by (auto simp: style_answer_ok_def style_check_def split: option.splits json.splits)

lemma calculate_template_match_score_eq:
  "calculate_template_match_score lower self t =
     (if style_answer_ok self then Inr (match_score_stated lower self t) else Inl AttributeError)"
  by (simp add: calculate_template_match_score_def style_match_eq color_match_eq
      functionality_match_eq technical_compatibility_eq match_score_stated_def)

text \<open>
  Claim C2, as amended. When the recorded answer to \<^verbatim>\<open>q2.1.1\<close> is absent or a string,
  \<^verbatim>\<open>calculate_template_match_score\<close> is the sum of the four fixed contributions (25 for
  the style check, 20 for the colour check, 30 for the goal check, 25 for the version
  check) clamped to at most 100; for any other style answer it raises
  \<^verbatim>\<open>AttributeError\<close>. When the four checks hold, the score is exactly 100.
\<close>

theorem match_score_four_contributions:
  "calculate_template_match_score lower self t =
     (if style_answer_ok self then Inr (match_score_stated lower self t) else Inl AttributeError)
   \<and> (style_check lower self t \<and> color_check self t \<and> goal_check self t \<and> version_check self t
        \<longrightarrow> calculate_template_match_score lower self t = Inr 100)"
proof -
  note eq = calculate_template_match_score_eq[of lower self t]
  moreover have "calculate_template_match_score lower self t = Inr 100"
    if "style_check lower self t" "color_check self t" "goal_check self t" "version_check self t"
    using that eq style_check_ok[OF that(1)] by (simp add: match_score_stated_def)
  ultimately show ?thesis by blast
qed

lemma four_answers_ledger:
  "user_responses system_four_answers =
     [(''q2.1.1'', \<lparr>r_question_id = ''q2.1.1'', response = JStr ''Minimal'',
                    additional_details = None, timestamp = ''t1''\<rparr>),
      (''q1.3.2'', \<lparr>r_question_id = ''q1.3.2'', response = JStr ''beige_orange'',
                    additional_details = None, timestamp = ''t2''\<rparr>),
      (''q1.1.1'', \<lparr>r_question_id = ''q1.1.1'', response = JStr goal_education,
                    additional_details = None, timestamp = ''t3''\<rparr>),
      (''q2.2.1'', \<lparr>r_question_id = ''q2.2.1'', response = JStr ''2019'',
                    additional_details = None, timestamp = ''t4''\<rparr>)]"
  by (simp add: system_four_answers_def submit_response_def new_system_def)

lemma lower_Minimal: "lower_ascii ''Minimal'' = ''minimal''"
  by (simp add: lower_ascii_def lower_char_def upper_letters_def lower_letters_def)

theorem match_score_four_contributions_witness:
  "style_check lower_ascii system_four_answers mock_template_1
   \<and> color_check system_four_answers mock_template_1
   \<and> goal_check system_four_answers mock_template_1
   \<and> version_check system_four_answers mock_template_1
   \<and> calculate_template_match_score lower_ascii system_four_answers mock_template_1 = Inr 100"
proof -
  have c: "style_check lower_ascii system_four_answers mock_template_1
     \<and> color_check system_four_answers mock_template_1
     \<and> goal_check system_four_answers mock_template_1
     \<and> version_check system_four_answers mock_template_1"
    by (simp add: style_check_def color_check_def goal_check_def version_check_def
        answer_of_def four_answers_ledger mock_template_1_def get_list_def lower_Minimal)
  from match_score_four_contributions[of lower_ascii system_four_answers mock_template_1] c
  show ?thesis by blast
qed

text \<open>
  The claim as stated, for every ledger, fails where the style answer is the JSON value
  \<^verbatim>\<open>true\<close>: the method raises and returns no score.
\<close>

theorem match_score_style_not_string:
  "calculate_template_match_score lower_ascii system_style_true mock_template_1 = Inl AttributeError
   \<and> calculate_template_match_score lower_ascii system_style_true mock_template_1
       \<noteq> Inr (match_score_stated lower_ascii system_style_true mock_template_1)"
  by (simp add: calculate_template_match_score_def style_match_def system_style_true_def
      submit_response_def new_system_def)

text \<open>
  Claim C8. Two ledgers that agree on the entries of \<^verbatim>\<open>q2.1.1\<close>, \<^verbatim>\<open>q1.3.2\<close>,
  \<^verbatim>\<open>q1.1.1\<close> and \<^verbatim>\<open>q2.2.1\<close> (an entry present in both and equal, or absent in both)
  give the same result of \<^verbatim>\<open>calculate_template_match_score\<close> on every template: no
  other response is read.
\<close>

theorem match_score_reads_four_answers:
  assumes "\<forall>k \<in> {''q2.1.1'', ''q1.3.2'', ''q1.1.1'', ''q2.2.1''}.
             map_of (user_responses s1) k = map_of (user_responses s2) k"
  shows "calculate_template_match_score lower s1 t = calculate_template_match_score lower s2 t"
proof -
  have "style_match lower s1 t = style_match lower s2 t"
    using assms by (simp add: style_match_def)
  moreover have "color_match s1 t = color_match s2 t"
    using assms by (simp add: color_match_def)
  moreover have "functionality_match s1 t = functionality_match s2 t"
    using assms by (simp add: functionality_match_def)
  moreover have "technical_compatibility s1 t = technical_compatibility s2 t"
    using assms by (simp add: technical_compatibility_def)
  ultimately show ?thesis
    by (simp add: calculate_template_match_score_def split: sum.splits)
qed

lemma five_answers_ledger:
  "user_responses system_five_answers =
     user_responses system_four_answers @
     [(''q5.1.2'', \<lparr>r_question_id = ''q5.1.2'', response = JStr ''expert'',
                    additional_details = Some ''note'', timestamp = ''t5''\<rparr>)]"
  by (simp add: system_five_answers_def submit_response_def four_answers_ledger)

theorem match_score_reads_four_answers_witness:
  "map_of (user_responses system_four_answers) ''q2.1.1''
     = map_of (user_responses system_five_answers) ''q2.1.1''
   \<and> map_of (user_responses system_four_answers) ''q1.3.2''
     = map_of (user_responses system_five_answers) ''q1.3.2''
   \<and> map_of (user_responses system_four_answers) ''q1.1.1''
     = map_of (user_responses system_five_answers) ''q1.1.1''
   \<and> map_of (user_responses system_four_answers) ''q2.2.1''
     = map_of (user_responses system_five_answers) ''q2.2.1''
   \<and> user_responses system_four_answers \<noteq> user_responses system_five_answers
   \<and> calculate_template_match_score lower_ascii system_four_answers mock_template_2
       = calculate_template_match_score lower_ascii system_five_answers mock_template_2"
proof -
  have h: "\<forall>k \<in> {''q2.1.1'', ''q1.3.2'', ''q1.1.1'', ''q2.2.1''}.
       map_of (user_responses system_four_answers) k = map_of (user_responses system_five_answers) k"
    by (simp add: five_answers_ledger four_answers_ledger)
  have d: "user_responses system_four_answers \<noteq> user_responses system_five_answers"
    by (simp add: five_answers_ledger)
  from match_score_reads_four_answers[OF h, of lower_ascii mock_template_2] h d show ?thesis by blast
qed

lemma lower_char_not_upper: "lower_char c \<notin> set upper_letters"
proof (cases "map_of (zip upper_letters lower_letters) c")
  case None
  then have "c \<notin> fst ` set (zip upper_letters lower_letters)"
    by (simp add: map_of_eq_None_iff)
  moreover have "fst ` set (zip upper_letters lower_letters) = set upper_letters"
    by (simp add: upper_letters_def lower_letters_def)
  ultimately show ?thesis using None by (simp add: lower_char_def)
next
  case (Some l)
  then have "(c, l) \<in> set (zip upper_letters lower_letters)"
    by (rule map_of_SomeD)
  then have "l \<in> set lower_letters"
    by (rule set_zip_rightD)
  moreover have "\<forall>x \<in> set lower_letters. x \<notin> set upper_letters"
    by (simp add: upper_letters_def lower_letters_def)
  ultimately show ?thesis using Some by (simp add: lower_char_def)
qed

lemma lower_no_upper: "\<not> has_ascii_capital (lower_ascii s)"
  by (simp add: has_ascii_capital_def lower_ascii_def lower_char_not_upper image_iff)

text \<open>
  Claim C10, as amended. A string answer to \<^verbatim>\<open>q2.1.1\<close> is lowercased and then looked up
  verbatim among the template's style tags: the style factor is 25 exactly when the
  lowercased answer is a tag. So a tag is matched only when it is the lowercase form of
  the answer, and a template whose tags are the lowercase form of no string is never
  matched; those are, \<^verbatim>\<open>lower\<close> never giving one of the letters \<^verbatim>\<open>A\<close> to \<^verbatim>\<open>Z\<close>, the
  templates whose tags all have such a letter. The colour, goal and version factors count
  exactly when the answer itself, unchanged, is a member of the template's list.
\<close>

theorem style_check_lowercases_answer_only:
  "(\<forall>r a. map_of (user_responses self) ''q2.1.1'' = Some r \<and> response r = JStr a \<longrightarrow>
        style_match lower self t
          = Inr (if lower a \<in> set (get_list (style_tags t)) then 25 else 0))
   \<and> (style_match lower self t = Inr 25 \<longrightarrow>
        (\<exists>a. answer_of self ''q2.1.1'' = Some (JStr a)
             \<and> lower a \<in> set (get_list (style_tags t))))
   \<and> ((\<forall>tag \<in> set (get_list (style_tags t)). tag \<notin> range lower)
        \<longrightarrow> style_match lower self t \<noteq> Inr 25)
   \<and> ((\<forall>s. \<not> has_ascii_capital (lower s))
        \<and> (\<forall>tag \<in> set (get_list (style_tags t)). has_ascii_capital tag)
        \<longrightarrow> style_match lower self t \<noteq> Inr 25)
   \<and> color_match self t =
        (if \<exists>a. answer_of self ''q1.3.2'' = Some (JStr a) \<and> a \<in> set (get_list (color_schemes t))
         then 20 else 0)
   \<and> functionality_match self t =
        (if \<exists>a. answer_of self ''q1.1.1'' = Some (JStr a) \<and> a \<in> set (get_list (suitable_for t))
         then 30 else 0)
   \<and> technical_compatibility self t =
        (if \<exists>a. answer_of self ''q2.2.1'' = Some (JStr a)
              \<and> a \<in> set (get_list (compatible_versions t))
         then 25 else 0)"
proof -
  have a: "style_match lower self t
             = Inr (if lower a \<in> set (get_list (style_tags t)) then 25 else 0)"
    if "map_of (user_responses self) ''q2.1.1'' = Some r" "response r = JStr a" for r a
    using that by (simp add: style_match_def)
  have b: "\<exists>a. answer_of self ''q2.1.1'' = Some (JStr a)
             \<and> lower a \<in> set (get_list (style_tags t))"
    if "style_match lower self t = Inr 25"
    using that
    by (auto simp: style_match_def answer_of_def split: option.splits json.splits if_splits)
  have c: "style_match lower self t \<noteq> Inr 25"
    if "\<forall>tag \<in> set (get_list (style_tags t)). tag \<notin> range lower"
    using that b by blast
  have c': "style_match lower self t \<noteq> Inr 25"
    if "(\<forall>s. \<not> has_ascii_capital (lower s))
        \<and> (\<forall>tag \<in> set (get_list (style_tags t)). has_ascii_capital tag)"
    using that b by metis
  have d: "color_match self t =
        (if \<exists>a. answer_of self ''q1.3.2'' = Some (JStr a) \<and> a \<in> set (get_list (color_schemes t))
         then 20 else 0)"
    by (auto simp: color_match_def answer_of_def py_in_iff split: option.splits json.splits)
  have e: "functionality_match self t =
        (if \<exists>a. answer_of self ''q1.1.1'' = Some (JStr a) \<and> a \<in> set (get_list (suitable_for t))
         then 30 else 0)"
    by (auto simp: functionality_match_def answer_of_def py_in_iff
        split: option.splits json.splits)
  have f: "technical_compatibility self t =
        (if \<exists>a. answer_of self ''q2.2.1'' = Some (JStr a)
              \<and> a \<in> set (get_list (compatible_versions t))
         then 25 else 0)"
    by (auto simp: technical_compatibility_def answer_of_def py_in_iff
        split: option.splits json.splits)
  from a b c c' d e f show ?thesis by blast
qed

text \<open>
  The claim as stated, that a tag with any uppercase letter in it is never matched, fails
  for the uppercase letter U+03D2, which \<^verbatim>\<open>lower\<close> keeps: the template whose one tag is
  that letter is matched by the answer that is that letter, and scores 25.
\<close>

theorem style_tag_uppercase_matched:
  "lower_ascii upsilon_hook = upsilon_hook
   \<and> get_list (style_tags template_upsilon) = [upsilon_hook]
   \<and> answer_of system_style_upsilon ''q2.1.1'' = Some (JStr upsilon_hook)
   \<and> style_match lower_ascii system_style_upsilon template_upsilon = Inr 25
   \<and> calculate_template_match_score lower_ascii system_style_upsilon template_upsilon = Inr 25"
proof -
  have l: "lower_ascii upsilon_hook = upsilon_hook"
    by (simp add: lower_ascii_def lower_char_def upper_letters_def lower_letters_def
        upsilon_hook_def)
  have t: "get_list (style_tags template_upsilon) = [upsilon_hook]"
    by (simp add: template_upsilon_def get_list_def)
  have u: "user_responses system_style_upsilon =
     [(''q2.1.1'', \<lparr>r_question_id = ''q2.1.1'', response = JStr upsilon_hook,
                    additional_details = None, timestamp = ''t1''\<rparr>)]"
    by (simp add: system_style_upsilon_def submit_response_def new_system_def)
  have a: "answer_of system_style_upsilon ''q2.1.1'' = Some (JStr upsilon_hook)"
    by (simp add: answer_of_def u)
  have s: "style_match lower_ascii system_style_upsilon template_upsilon = Inr 25"
    by (simp add: style_match_def u l t)
  have c: "calculate_template_match_score lower_ascii system_style_upsilon template_upsilon
             = Inr 25"
    by (simp add: calculate_template_match_score_def s color_match_def functionality_match_def
        technical_compatibility_def u)
  from l t a s c show ?thesis by blast
qed

theorem style_check_lowercases_answer_only_witness:
  "map_of (user_responses system_four_answers) ''q2.1.1''
     = Some \<lparr>r_question_id = ''q2.1.1'', response = JStr ''Minimal'',
             additional_details = None, timestamp = ''t1''\<rparr>
   \<and> lower_ascii ''Minimal'' = ''minimal''
   \<and> style_match lower_ascii system_four_answers mock_template_1 = Inr 25
   \<and> (\<forall>s. \<not> has_ascii_capital (lower_ascii s))
   \<and> has_ascii_capital ''Minimal'' \<and> has_ascii_capital ''Modern'' \<and> has_ascii_capital ''PRO''
   \<and> ''Minimal'' \<notin> range lower_ascii \<and> ''Modern'' \<notin> range lower_ascii
   \<and> ''PRO'' \<notin> range lower_ascii
   \<and> style_match lower_ascii system_four_answers
        (mock_template_1\<lparr>style_tags := Some [''Minimal'', ''Modern'', ''PRO'']\<rparr>) \<noteq> Inr 25
   \<and> color_match system_color_capital mock_template_1 = 0"
proof -
  let ?r = "\<lparr>r_question_id = ''q2.1.1'', response = JStr ''Minimal'',
             additional_details = None, timestamp = ''t1''\<rparr>"
  let ?t = "mock_template_1\<lparr>style_tags := Some [''Minimal'', ''Modern'', ''PRO'']\<rparr>"
  have m: "map_of (user_responses system_four_answers) ''q2.1.1'' = Some ?r"
    by (simp add: four_answers_ledger)
  have r: "response ?r = JStr ''Minimal''" by simp
  have n: "\<forall>s. \<not> has_ascii_capital (lower_ascii s)"
    by (simp add: lower_no_upper)
  have u: "has_ascii_capital ''Minimal'' \<and> has_ascii_capital ''Modern''
           \<and> has_ascii_capital ''PRO''"
    by (simp add: has_ascii_capital_def upper_letters_def)
  then have all: "\<forall>tag \<in> set (get_list (style_tags ?t)). has_ascii_capital tag"
    by (simp add: get_list_def)
  have rng: "''Minimal'' \<notin> range lower_ascii \<and> ''Modern'' \<notin> range lower_ascii
             \<and> ''PRO'' \<notin> range lower_ascii"
    using u n by (metis rangeE)
  have tags: "lower_ascii ''Minimal'' \<in> set (get_list (style_tags mock_template_1))"
    by (simp add: lower_Minimal mock_template_1_def get_list_def)
  have nocol: "\<not> (\<exists>a. answer_of system_color_capital ''q1.3.2'' = Some (JStr a)
                      \<and> a \<in> set (get_list (color_schemes mock_template_1)))"
    by (simp add: answer_of_def system_color_capital_def submit_response_def new_system_def
        mock_template_1_def get_list_def)
  note w1 = style_check_lowercases_answer_only[of system_four_answers lower_ascii mock_template_1]
  note w2 = style_check_lowercases_answer_only[of system_four_answers lower_ascii ?t]
  note w3 = style_check_lowercases_answer_only[of system_color_capital lower_ascii mock_template_1]
  have s1: "style_match lower_ascii system_four_answers mock_template_1 = Inr 25"
    using w1 m r tags by auto
  have s2: "style_match lower_ascii system_four_answers ?t \<noteq> Inr 25"
    using w2 n all by blast
  have s3: "color_match system_color_capital mock_template_1 = 0"
    using w3 nocol by auto
  from m lower_Minimal s1 n u rng s2 s3 show ?thesis by blast
qed

section \<open>The response ledger: properties\<close>

lemma filter_key_update:
  "distinct (map fst al) \<Longrightarrow> filter (\<lambda>e. fst e = k) (AList.update k v al) = [(k, v)]"
proof (induction al)
  case Nil
  then show ?case by simp
next
  case (Cons p ps)
  show ?case
  proof (cases "fst p = k")
    case True
    with Cons.prems have "k \<notin> fst ` set ps" by auto
    then have "filter (\<lambda>e. fst e = k) ps = []"
      by (auto simp: filter_empty_conv)
    with True show ?thesis by simp
  next
    case False
    with Cons show ?thesis by simp
  qed
qed

lemma length_update_present:
  "k \<in> fst ` set al \<Longrightarrow> length (AList.update k v al) = length al"
  by (induction al) auto

text \<open>
  Claim C6. For a non-empty question identifier and present (not \<^verbatim>\<open>None\<close>) answers,
  \<^verbatim>\<open>submit_response\<close> returns \<^verbatim>\<open>True\<close>; after two submissions to the same identifier
  the ledger (a dictionary: each key once) holds for it the value, the detail and the
  timestamp of the second and no other entry, and it has as many entries as after the
  first.
\<close>

theorem submit_response_overwrites:
  assumes "qid \<noteq> []" and "v1 \<noteq> JNull" and "v2 \<noteq> JNull"
    and "distinct (map fst (user_responses s))"
  shows "let r1 = submit_response s t1 qid v1 d1;
             r2 = submit_response (snd r1) t2 qid v2 d2;
             latest = \<lparr>r_question_id = qid, response = v2, additional_details = d2,
                       timestamp = t2\<rparr>
         in fst r1 \<and> fst r2
            \<and> map_of (user_responses (snd r2)) qid = Some latest
            \<and> filter (\<lambda>e. fst e = qid) (user_responses (snd r2)) = [(qid, latest)]
            \<and> length (user_responses (snd r2)) = length (user_responses (snd r1))
            \<and> distinct (map fst (user_responses (snd r2)))"
proof -
  let ?u1 = "\<lparr>r_question_id = qid, response = v1, additional_details = d1, timestamp = t1\<rparr>"
  let ?u2 = "\<lparr>r_question_id = qid, response = v2, additional_details = d2, timestamp = t2\<rparr>"
  let ?l1 = "AList.update qid ?u1 (user_responses s)"
  let ?l2 = "AList.update qid ?u2 ?l1"
  have d1: "distinct (map fst ?l1)"
    using assms(4) by (rule distinct_update)
  then have d2: "distinct (map fst ?l2)"
    by (rule distinct_update)
  have "qid \<in> fst ` set ?l1"
    by (simp add: dom_update)
  then have len: "length ?l2 = length ?l1"
    by (rule length_update_present)
  have m: "map_of ?l2 qid = Some ?u2"
    by (simp add: update_conv')
  have f: "filter (\<lambda>e. fst e = qid) ?l2 = [(qid, ?u2)]"
    using d1 by (rule filter_key_update)
  from d2 len m f show ?thesis
    by (simp add: submit_response_def Let_def)
qed

theorem submit_response_overwrites_witness:
  "''q1.1.1'' \<noteq> [] \<and> JStr ''first'' \<noteq> JNull \<and> JBool False \<noteq> JNull
   \<and> distinct (map fst (user_responses system_four_answers))
   \<and> fst (submit_response system_four_answers ''t8'' ''q1.1.1'' (JStr ''first'') None)
   \<and> user_responses
        (snd (submit_response
               (snd (submit_response system_four_answers ''t8'' ''q1.1.1'' (JStr ''first'') None))
               ''t9'' ''q1.1.1'' (JBool False) (Some ''changed'')))
      = [(''q2.1.1'', \<lparr>r_question_id = ''q2.1.1'', response = JStr ''Minimal'',
                       additional_details = None, timestamp = ''t1''\<rparr>),
         (''q1.3.2'', \<lparr>r_question_id = ''q1.3.2'', response = JStr ''beige_orange'',
                       additional_details = None, timestamp = ''t2''\<rparr>),
         (''q1.1.1'', \<lparr>r_question_id = ''q1.1.1'', response = JBool False,
                       additional_details = Some ''changed'', timestamp = ''t9''\<rparr>),
         (''q2.2.1'', \<lparr>r_question_id = ''q2.2.1'', response = JStr ''2019'',
                       additional_details = None, timestamp = ''t4''\<rparr>)]
   \<and> map_of (user_responses
        (snd (submit_response
               (snd (submit_response system_four_answers ''t8'' ''q1.1.1'' (JStr ''first'') None))
               ''t9'' ''q1.1.1'' (JBool False) (Some ''changed'')))) ''q1.1.1''
      = Some \<lparr>r_question_id = ''q1.1.1'', response = JBool False,
               additional_details = Some ''changed'', timestamp = ''t9''\<rparr>
   \<and> length (user_responses
        (snd (submit_response
               (snd (submit_response system_four_answers ''t8'' ''q1.1.1'' (JStr ''first'') None))
               ''t9'' ''q1.1.1'' (JBool False) (Some ''changed''))))
      = length (user_responses
          (snd (submit_response system_four_answers ''t8'' ''q1.1.1'' (JStr ''first'') None)))"
proof -
  have h1: "''q1.1.1'' \<noteq> []" by simp
  have h2: "JStr ''first'' \<noteq> JNull" by simp
  have h3: "JBool False \<noteq> JNull" by simp
  have h4: "distinct (map fst (user_responses system_four_answers))"
    by (simp add: four_answers_ledger)
  have e: "user_responses
        (snd (submit_response
               (snd (submit_response system_four_answers ''t8'' ''q1.1.1'' (JStr ''first'') None))
               ''t9'' ''q1.1.1'' (JBool False) (Some ''changed'')))
      = [(''q2.1.1'', \<lparr>r_question_id = ''q2.1.1'', response = JStr ''Minimal'',
                       additional_details = None, timestamp = ''t1''\<rparr>),
         (''q1.3.2'', \<lparr>r_question_id = ''q1.3.2'', response = JStr ''beige_orange'',
                       additional_details = None, timestamp = ''t2''\<rparr>),
         (''q1.1.1'', \<lparr>r_question_id = ''q1.1.1'', response = JBool False,
                       additional_details = Some ''changed'', timestamp = ''t9''\<rparr>),
         (''q2.2.1'', \<lparr>r_question_id = ''q2.2.1'', response = JStr ''2019'',
                       additional_details = None, timestamp = ''t4''\<rparr>)]"
    by (simp add: submit_response_def four_answers_ledger)
  from submit_response_overwrites[OF h1 h2 h3 h4, of "''t8''" None "''t9''" "Some ''changed''"]
  have "fst (submit_response system_four_answers ''t8'' ''q1.1.1'' (JStr ''first'') None)
    \<and> map_of (user_responses
        (snd (submit_response
               (snd (submit_response system_four_answers ''t8'' ''q1.1.1'' (JStr ''first'') None))
               ''t9'' ''q1.1.1'' (JBool False) (Some ''changed'')))) ''q1.1.1''
      = Some \<lparr>r_question_id = ''q1.1.1'', response = JBool False,
               additional_details = Some ''changed'', timestamp = ''t9''\<rparr>
    \<and> length (user_responses
        (snd (submit_response
               (snd (submit_response system_four_answers ''t8'' ''q1.1.1'' (JStr ''first'') None))
               ''t9'' ''q1.1.1'' (JBool False) (Some ''changed''))))
      = length (user_responses
          (snd (submit_response system_four_answers ''t8'' ''q1.1.1'' (JStr ''first'') None)))"
    unfolding Let_def by blast
  with h1 h2 h3 h4 e show ?thesis by blast
qed

section \<open>The endpoint: properties\<close>

lemma dict_get_assign: "dict_get k (dict_assign k v d) = Some v"
  by (induction d) auto

lemma raw_ledger_update:
  "raw_ledger_of (AList.update q r responses)
     = dict_assign (JStr q) (to_raw r) (raw_ledger_of responses)"
  by (induction responses) (auto simp: raw_ledger_of_def py_key_def)

lemma submit_response_any_string:
  "submit_response_any (raw_ledger_of (user_responses s)) now (JStr q) v (detail_json d)
     = Inr (True, raw_ledger_of (user_responses (snd (submit_response s now q v d))))"
  by (simp add: submit_response_any_def submit_response_def hashable_def raw_ledger_update
      to_raw_def)

lemma route_object:
  "submit_response_route responses now (Some (JObj data)) =
     (if \<not> truthy (py_get data ''question_id'') \<or> py_get data ''response'' = JNull
      then (Rejected ''question_id and response are required'', responses)
      else if hashable (py_get data ''question_id'')
      then (Submitted True ''Response submitted successfully'',
            dict_assign (py_get data ''question_id'')
              \<lparr>raw_question_id = py_get data ''question_id'',
               raw_answer = py_get data ''response'',
               raw_additional_details = py_get data ''additional_details'',
               raw_timestamp = now\<rparr> responses)
      else (Failed (Some TypeError), responses))"
  by (simp add: submit_response_route_def submit_response_any_def Let_def)

lemma route_not_object:
  "\<forall>data. body \<noteq> Some (JObj data) \<Longrightarrow>
     status (fst (submit_response_route responses now body)) = 500
     \<and> snd (submit_response_route responses now body) = responses"
  by (auto simp: submit_response_route_def split: option.splits json.splits)

text \<open>
  Claim C9, as amended. The handler of \<^verbatim>\<open>POST /api/responses\<close> replies 400 exactly when
  the body is a JSON object whose question identifier is falsy in Python (absent,
  \<^verbatim>\<open>null\<close>, the empty string, an empty list or object, the number 0 or \<^verbatim>\<open>false\<close>) or
  whose response is absent or \<^verbatim>\<open>null\<close>. It replies 500 exactly when the body is no
  JSON object, or is one that passes that test with an identifier that is a list or an
  object, which no dictionary takes as a key. In both cases the ledger is as it was. Every
  other body is answered 200 with success and its response is recorded under its
  identifier, whatever the truth value of the response (\<^verbatim>\<open>false\<close> and \<^verbatim>\<open>0\<close> included);
  for a string identifier that is what \<^verbatim>\<open>submit_response\<close> does to the ledger.
\<close>

theorem submit_route_400_iff:
  "(status (fst (submit_response_route responses now body)) = 400
      \<longleftrightarrow> (\<exists>data. body = Some (JObj data)
              \<and> (\<not> truthy (py_get data ''question_id'') \<or> py_get data ''response'' = JNull)))
   \<and> (status (fst (submit_response_route responses now body)) = 500
      \<longleftrightarrow> (\<forall>data. body \<noteq> Some (JObj data))
          \<or> (\<exists>data. body = Some (JObj data)
                \<and> truthy (py_get data ''question_id'') \<and> py_get data ''response'' \<noteq> JNull
                \<and> \<not> hashable (py_get data ''question_id'')))
   \<and> (status (fst (submit_response_route responses now body)) \<noteq> 200
        \<longrightarrow> snd (submit_response_route responses now body) = responses)
   \<and> (\<forall>data. body = Some (JObj data)
          \<and> truthy (py_get data ''question_id'') \<and> hashable (py_get data ''question_id'')
          \<and> py_get data ''response'' \<noteq> JNull
        \<longrightarrow> fst (submit_response_route responses now body)
              = Submitted True ''Response submitted successfully''
            \<and> dict_get (py_get data ''question_id'')
                 (snd (submit_response_route responses now body))
                = Some \<lparr>raw_question_id = py_get data ''question_id'',
                         raw_answer = py_get data ''response'',
                         raw_additional_details = py_get data ''additional_details'',
                         raw_timestamp = now\<rparr>)
   \<and> (\<forall>s data q d. responses = raw_ledger_of (user_responses s) \<and> body = Some (JObj data)
          \<and> py_get data ''question_id'' = JStr q \<and> q \<noteq> []
          \<and> py_get data ''response'' \<noteq> JNull
          \<and> py_get data ''additional_details'' = detail_json d
        \<longrightarrow> snd (submit_response_route responses now body)
              = raw_ledger_of
                  (user_responses (snd (submit_response s now q (py_get data ''response'') d))))"
proof (cases "\<exists>data. body = Some (JObj data)")
  case False
  then have n: "\<forall>data. body \<noteq> Some (JObj data)" by blast
  from route_not_object[OF n, of responses now] n show ?thesis by auto
next
  case True
  then obtain data where b: "body = Some (JObj data)" by blast
  let ?q = "py_get data ''question_id''"
  let ?v = "py_get data ''response''"
  note r = route_object[of responses now data]
  have a: "status (fst (submit_response_route responses now body)) = 400
             \<longleftrightarrow> (\<not> truthy ?q \<or> ?v = JNull)"
    unfolding b r by simp
  have c: "status (fst (submit_response_route responses now body)) = 500
             \<longleftrightarrow> (truthy ?q \<and> ?v \<noteq> JNull \<and> \<not> hashable ?q)"
    unfolding b r by auto
  have d: "snd (submit_response_route responses now body) = responses"
    if "status (fst (submit_response_route responses now body)) \<noteq> 200"
    using that unfolding b r by (auto split: if_splits)
  have e: "fst (submit_response_route responses now body)
              = Submitted True ''Response submitted successfully''
            \<and> dict_get ?q (snd (submit_response_route responses now body))
                = Some \<lparr>raw_question_id = ?q, raw_answer = ?v,
                         raw_additional_details = py_get data ''additional_details'',
                         raw_timestamp = now\<rparr>"
    if "truthy ?q" "hashable ?q" "?v \<noteq> JNull"
    using that unfolding b r by (simp add: dict_get_assign)
  have f: "snd (submit_response_route responses now body)
              = raw_ledger_of (user_responses (snd (submit_response s now q ?v d)))"
    if "responses = raw_ledger_of (user_responses s)" "?q = JStr q" "q \<noteq> []" "?v \<noteq> JNull"
      "py_get data ''additional_details'' = detail_json d" for s q d
  proof -
    have "truthy ?q" "hashable ?q"
      using that(2,3) by (simp_all add: hashable_def)
    then have "snd (submit_response_route responses now body)
                 = dict_assign (JStr q) \<lparr>raw_question_id = JStr q, raw_answer = ?v,
                     raw_additional_details = detail_json d, raw_timestamp = now\<rparr> responses"
      using that(2,4,5) unfolding b r by simp
    also have "\<dots> = raw_ledger_of (user_responses (snd (submit_response s now q ?v d)))"
      unfolding that(1) by (simp add: submit_response_def raw_ledger_update to_raw_def)
    finally show ?thesis .
  qed
  from a c d e f show ?thesis unfolding b by auto
qed

text \<open>
  The claim as stated fails for the body whose question identifier is the number 0 and
  whose response is a string: the identifier is there and is not empty, and the reply is
  400. It fails as well for the body \<^verbatim>\<open>null\<close>, which has no identifier and is answered
  500.
\<close>

theorem submit_route_identifier_zero:
  "py_get [(''question_id'', JNum 0), (''response'', JStr ''yes'')] ''question_id'' = JNum 0
   \<and> \<not> missing_or_empty (JNum 0)
   \<and> \<not> rejected_stated (Some body_id_zero)
   \<and> status (fst (submit_response_route [] ''t1'' (Some body_id_zero))) = 400
   \<and> rejected_stated (Some JNull)
   \<and> status (fst (submit_response_route [] ''t1'' (Some JNull))) = 500"
  by (simp add: py_get_def missing_or_empty_def rejected_stated_def body_id_zero_def
      submit_response_route_def Let_def)

lemma body_values:
  "py_get [(''question_id'', JStr ''q3.1.4''), (''response'', JBool False)] k
     = (if k = ''question_id'' then JStr ''q3.1.4''
        else if k = ''response'' then JBool False else JNull)"
  "py_get [(''question_id'', JStr ''q3.1.5''), (''response'', JNum 0),
           (''additional_details'', JStr ''none'')] k
     = (if k = ''question_id'' then JStr ''q3.1.5''
        else if k = ''response'' then JNum 0
        else if k = ''additional_details'' then JStr ''none'' else JNull)"
  "py_get [(''question_id'', JNum 0), (''response'', JStr ''yes'')] k
     = (if k = ''question_id'' then JNum 0
        else if k = ''response'' then JStr ''yes'' else JNull)"
  "py_get [(''question_id'', JArr [JStr ''q1.1.1'']), (''response'', JStr ''yes'')] k
     = (if k = ''question_id'' then JArr [JStr ''q1.1.1'']
        else if k = ''response'' then JStr ''yes'' else JNull)"
  "py_get [(''question_id'', JStr ''q3.1.5'')] k
     = (if k = ''question_id'' then JStr ''q3.1.5'' else JNull)"
  by (simp_all add: py_get_def)

theorem submit_route_400_iff_witness:
  "\<not> truthy (JBool False) \<and> JBool False \<noteq> JNull
   \<and> fst (submit_response_route (raw_ledger_of (user_responses system_four_answers)) ''t6''
            (Some body_false))
       = Submitted True ''Response submitted successfully''
   \<and> dict_get (JStr ''q3.1.4'')
        (snd (submit_response_route (raw_ledger_of (user_responses system_four_answers)) ''t6''
               (Some body_false)))
       = Some \<lparr>raw_question_id = JStr ''q3.1.4'', raw_answer = JBool False,
                raw_additional_details = JNull, raw_timestamp = ''t6''\<rparr>
   \<and> snd (submit_response_route (raw_ledger_of (user_responses system_four_answers)) ''t6''
            (Some body_false))
       = raw_ledger_of (user_responses
           (snd (submit_response system_four_answers ''t6'' ''q3.1.4'' (JBool False) None)))
   \<and> \<not> truthy (JNum 0) \<and> JNum 0 \<noteq> JNull
   \<and> fst (submit_response_route [] ''t7'' (Some body_zero))
       = Submitted True ''Response submitted successfully''
   \<and> dict_get (JStr ''q3.1.5'') (snd (submit_response_route [] ''t7'' (Some body_zero)))
       = Some \<lparr>raw_question_id = JStr ''q3.1.5'', raw_answer = JNum 0,
                raw_additional_details = JStr ''none'', raw_timestamp = ''t7''\<rparr>
   \<and> status (fst (submit_response_route [] ''t7'' (Some body_no_response))) = 400
   \<and> status (fst (submit_response_route [] ''t7'' (Some body_id_zero))) = 400
   \<and> snd (submit_response_route [] ''t7'' (Some body_id_zero)) = []
   \<and> status (fst (submit_response_route [] ''t7'' (Some body_id_list))) = 500
   \<and> status (fst (submit_response_route [] ''t7'' (Some (JArr [])))) = 500
   \<and> status (fst (submit_response_route [] ''t7'' None)) = 500
   \<and> snd (submit_response_route [] ''t7'' None) = []"
proof -
  let ?four = "raw_ledger_of (user_responses system_four_answers)"
  have t: "\<not> truthy (JBool False)" "JBool False \<noteq> JNull" "\<not> truthy (JNum 0)" "JNum 0 \<noteq> JNull"
    by simp_all
  note w1 = submit_route_400_iff[of ?four "''t6''" "Some body_false"]
  note w2 = submit_route_400_iff[of "[]" "''t7''" "Some body_zero"]
  note w3 = submit_route_400_iff[of "[]" "''t7''" "Some body_no_response"]
  note w4 = submit_route_400_iff[of "[]" "''t7''" "Some body_id_zero"]
  note w5 = submit_route_400_iff[of "[]" "''t7''" "Some body_id_list"]
  note w6 = submit_route_400_iff[of "[]" "''t7''" "Some (JArr [])"]
  note w7 = submit_route_400_iff[of "[]" "''t7''" None]
  have r1: "fst (submit_response_route ?four ''t6'' (Some body_false))
       = Submitted True ''Response submitted successfully''
    \<and> dict_get (JStr ''q3.1.4'') (snd (submit_response_route ?four ''t6'' (Some body_false)))
       = Some \<lparr>raw_question_id = JStr ''q3.1.4'', raw_answer = JBool False,
                raw_additional_details = JNull, raw_timestamp = ''t6''\<rparr>"
    using w1[THEN conjunct2, THEN conjunct2, THEN conjunct2, THEN conjunct1, rule_format,
        of "[(''question_id'', JStr ''q3.1.4''), (''response'', JBool False)]"]
    by (simp add: body_false_def body_values hashable_def)
  have r1': "snd (submit_response_route ?four ''t6'' (Some body_false))
       = raw_ledger_of (user_responses
           (snd (submit_response system_four_answers ''t6'' ''q3.1.4'' (JBool False) None)))"
    using w1[THEN conjunct2, THEN conjunct2, THEN conjunct2, THEN conjunct2, rule_format,
        of system_four_answers "[(''question_id'', JStr ''q3.1.4''), (''response'', JBool False)]"
           "''q3.1.4''" None]
    by (simp add: body_false_def body_values detail_json_def)
  have r2: "fst (submit_response_route [] ''t7'' (Some body_zero))
       = Submitted True ''Response submitted successfully''
    \<and> dict_get (JStr ''q3.1.5'') (snd (submit_response_route [] ''t7'' (Some body_zero)))
       = Some \<lparr>raw_question_id = JStr ''q3.1.5'', raw_answer = JNum 0,
                raw_additional_details = JStr ''none'', raw_timestamp = ''t7''\<rparr>"
    using w2[THEN conjunct2, THEN conjunct2, THEN conjunct2, THEN conjunct1, rule_format,
        of "[(''question_id'', JStr ''q3.1.5''), (''response'', JNum 0),
             (''additional_details'', JStr ''none'')]"]
    by (simp add: body_zero_def body_values hashable_def)
  have r3: "status (fst (submit_response_route [] ''t7'' (Some body_no_response))) = 400"
    using w3[THEN conjunct1] by (simp add: body_no_response_def body_values)
  have r4: "status (fst (submit_response_route [] ''t7'' (Some body_id_zero))) = 400"
    using w4[THEN conjunct1] by (simp add: body_id_zero_def body_values)
  then have r4': "snd (submit_response_route [] ''t7'' (Some body_id_zero)) = []"
    using w4[THEN conjunct2, THEN conjunct2, THEN conjunct1] by simp
  have r5: "status (fst (submit_response_route [] ''t7'' (Some body_id_list))) = 500"
    using w5[THEN conjunct2, THEN conjunct1]
    by (simp add: body_id_list_def body_values hashable_def)
  have r6: "status (fst (submit_response_route [] ''t7'' (Some (JArr [])))) = 500"
    using w6[THEN conjunct2, THEN conjunct1] by simp
  have r7: "status (fst (submit_response_route [] ''t7'' None)) = 500"
    using w7[THEN conjunct2, THEN conjunct1] by simp
  then have r7': "snd (submit_response_route [] ''t7'' None) = []"
    using w7[THEN conjunct2, THEN conjunct2, THEN conjunct1] by simp
  from t r1 r1' r2 r3 r4 r4' r5 r6 r7 r7' show ?thesis by blast
qed

section \<open>Progress: properties\<close>

lemma progress_filters:
  "filter (\<lambda>q. case required q of None \<Rightarrow> False | Some b \<Rightarrow> b) qs
     = filter (\<lambda>q. required q = Some True) qs"
  by (rule filter_cong) (auto split: option.splits)

lemma answered_iff: "answered self q \<longleftrightarrow> map_of (user_responses self) (question_id q) \<noteq> None"
  by (simp add: answered_def map_of_eq_None_iff)

lemma progress_eq:
  "get_progress_percentage self =
     (if required_questions self = [] then 100
      else of_nat (length (filter (answered self) (required_questions self)))
             / of_nat (length (required_questions self)) * 100)"
  by (simp add: get_progress_percentage_def Let_def progress_filters required_questions_def
      answered_iff[abs_def])

text \<open>
  Claim C7. \<^verbatim>\<open>get_progress_percentage\<close> is the number of required questions that have
  an entry in the ledger, divided by the number of required questions, times 100; it is
  100 when every required question is answered, and 100 when there is no required
  question.
\<close>

theorem progress_percentage:
  "(required_questions self \<noteq> [] \<longrightarrow>
      get_progress_percentage self
        = of_nat (length (filter (answered self) (required_questions self)))
            / of_nat (length (required_questions self)) * 100)
   \<and> ((\<forall>q \<in> set (required_questions self). answered self q)
        \<longrightarrow> get_progress_percentage self = 100)
   \<and> (required_questions self = [] \<longrightarrow> get_progress_percentage self = 100)"
proof -
  have "get_progress_percentage self = 100"
    if "\<forall>q \<in> set (required_questions self). answered self q"
  proof (cases "required_questions self = []")
    case True
    then show ?thesis by (simp add: progress_eq)
  next
    case False
    from that have "filter (answered self) (required_questions self) = required_questions self"
      by (simp add: filter_id_conv)
    with False show ?thesis by (simp add: progress_eq)
  qed
  then show ?thesis by (simp add: progress_eq)
qed

lemma sample_questions:
  "get_all_questions (new_system sample_config) =
     [mk_question ''q1.1.1'' (Some True) 10, mk_question ''q1.3.2'' None 8,
      mk_question ''q2.1.1'' (Some True) 300, mk_question ''q5.1.1'' (Some False) 5]"
  by (simp add: get_all_questions_def new_system_def sample_config_def)

lemma get_all_questions_submit:
  "get_all_questions (snd (submit_response s now qid v d)) = get_all_questions s"
  by (simp add: get_all_questions_def submit_response_def)

lemma sample_half_ledger:
  "user_responses sample_half =
     [(''q1.1.1'', \<lparr>r_question_id = ''q1.1.1'', response = JStr goal_education,
                    additional_details = None, timestamp = ''t1''\<rparr>)]"
  by (simp add: sample_half_def submit_response_def new_system_def)

lemma sample_full_ledger:
  "user_responses sample_full =
     [(''q1.1.1'', \<lparr>r_question_id = ''q1.1.1'', response = JStr goal_education,
                    additional_details = None, timestamp = ''t1''\<rparr>),
      (''q2.1.1'', \<lparr>r_question_id = ''q2.1.1'', response = JStr ''Minimal'',
                    additional_details = None, timestamp = ''t2''\<rparr>)]"
  by (simp add: sample_full_def submit_response_def sample_half_ledger)

lemma sample_required:
  "required_questions sample_half =
     [mk_question ''q1.1.1'' (Some True) 10, mk_question ''q2.1.1'' (Some True) 300]"
  "required_questions sample_full =
     [mk_question ''q1.1.1'' (Some True) 10, mk_question ''q2.1.1'' (Some True) 300]"
  by (simp_all add: required_questions_def sample_half_def sample_full_def
      get_all_questions_submit sample_questions mk_question_def)

theorem progress_percentage_witness:
  "required_questions sample_half \<noteq> []
   \<and> get_progress_percentage sample_half = 50
   \<and> answered sample_full (mk_question ''q1.1.1'' (Some True) 10)
   \<and> answered sample_full (mk_question ''q2.1.1'' (Some True) 300)
   \<and> get_progress_percentage sample_full = 100
   \<and> required_questions (new_system empty_config) = []
   \<and> get_progress_percentage (new_system empty_config) = 100"
proof -
  have n: "required_questions sample_half \<noteq> []"
    by (simp add: sample_required)
  have c: "of_nat (length (filter (answered sample_half) (required_questions sample_half)))
            / of_nat (length (required_questions sample_half)) * 100 = (50::rat)"
    by (simp add: sample_required answered_def sample_half_ledger mk_question_def)
  have a: "answered sample_full (mk_question ''q1.1.1'' (Some True) 10)"
    "answered sample_full (mk_question ''q2.1.1'' (Some True) 300)"
    by (simp_all add: answered_def sample_full_ledger mk_question_def)
  then have all: "\<forall>q \<in> set (required_questions sample_full). answered sample_full q"
    by (simp add: sample_required)
  have e: "required_questions (new_system empty_config) = []"
    by (simp add: required_questions_def get_all_questions_def new_system_def empty_config_def)
  have p1: "get_progress_percentage sample_half = 50"
    using progress_percentage[of sample_half] n c by simp
  have p2: "get_progress_percentage sample_full = 100"
    using progress_percentage[of sample_full] all by blast
  have p3: "get_progress_percentage (new_system empty_config) = 100"
    using progress_percentage[of "new_system empty_config"] e by blast
  from n a e p1 p2 p3 show ?thesis by blast
qed

section \<open>Recommendations: properties\<close>

lemma build_recommendations_ok:
  "style_answer_ok self \<or> db = [] \<Longrightarrow>
     build_recommendations lower self db = Inr (catalog_recommendations lower self db)"
  by (induction db) (simp_all add: catalog_recommendations_def calculate_template_match_score_eq)

lemma build_recommendations_raises:
  "\<not> style_answer_ok self \<Longrightarrow> db \<noteq> [] \<Longrightarrow>
     build_recommendations lower self db = Inl AttributeError"
  by (cases db) (simp_all add: calculate_template_match_score_eq)

lemma generate_recommendations_raises:
  "\<not> style_answer_ok self \<Longrightarrow> db \<noteq> [] \<Longrightarrow>
     generate_recommendations lower self db = Inl AttributeError"
  by (simp add: generate_recommendations_def build_recommendations_raises)

lemma match_score_stated_range:
  "0 \<le> match_score_stated lower self t \<and> match_score_stated lower self t \<le> 100"
  by (simp add: match_score_stated_def)

lemma sort_reverse_descending:
  "sorted_wrt (\<lambda>a b. k b \<le> k a) (sort_reverse k xs)"
proof -
  have "sorted (map k (sort_key k (rev xs)))"
    by (rule sorted_sort_key)
  then have "sorted_wrt (\<lambda>a b. k a \<le> k b) (sort_key k (rev xs))"
    by (simp add: sorted_wrt_map)
  then show ?thesis
    by (simp add: sort_reverse_def sorted_wrt_rev)
qed

lemma sort_reverse_stable:
  "filter (\<lambda>y. k y = c) (sort_reverse k xs) = filter (\<lambda>y. k y = c) xs"
proof -
  have "filter (\<lambda>y. k y = c) (sort_reverse k xs)
          = rev (filter (\<lambda>y. k y = c) (sort_key k (rev xs)))"
    by (simp add: sort_reverse_def rev_filter)
  also have "\<dots> = rev (filter (\<lambda>y. k y = c) (rev xs))"
    by (simp only: sort_key_stable)
  also have "\<dots> = filter (\<lambda>y. k y = c) xs"
    by (simp add: rev_filter)
  finally show ?thesis .
qed

lemma set_sort_reverse: "set (sort_reverse k xs) = set xs"
  by (simp add: sort_reverse_def)

lemma length_sort_reverse: "length (sort_reverse k xs) = length xs"
  by (simp add: sort_reverse_def)

text \<open>
  Claim C4, as amended. For every catalog and every ledger whose answer to \<^verbatim>\<open>q2.1.1\<close> is
  absent or a string (and for the empty catalog with any ledger),
  \<^verbatim>\<open>generate_recommendations\<close> returns the first ten of a ranked list and stores the
  whole ranked list, one entry for every template of the catalog, in the object. The
  ranked list is in descending order of match score, the entries of equal score are in
  the order of the catalog, and every score is between 0 and 100; so the returned list
  has at most ten entries, is in descending order, and its entries of equal score are the
  first ones of the catalog with that score, in catalog order. For every ledger whose
  answer to \<^verbatim>\<open>q2.1.1\<close> is not a string, and every catalog that is not empty, the method
  raises \<^verbatim>\<open>AttributeError\<close>: it returns no list and stores none.
\<close>

theorem recommendations_ranked:
  "(style_answer_ok self \<or> db = [] \<longrightarrow>
      (\<exists>ranked.
         generate_recommendations lower self db
           = Inr (take 10 ranked, self\<lparr>recommendations := ranked\<rparr>)
         \<and> length ranked = length db
         \<and> sorted_wrt (\<lambda>a b. match_score b \<le> match_score a) ranked
         \<and> (\<forall>c. filter (\<lambda>r. match_score r = c) ranked
                = filter (\<lambda>r. match_score r = c) (catalog_recommendations lower self db))
         \<and> length (take 10 ranked) \<le> 10
         \<and> sorted_wrt (\<lambda>a b. match_score b \<le> match_score a) (take 10 ranked)
         \<and> (\<forall>c. prefix (filter (\<lambda>r. match_score r = c) (take 10 ranked))
                        (filter (\<lambda>r. match_score r = c) (catalog_recommendations lower self db)))
         \<and> (\<forall>r \<in> set ranked. 0 \<le> match_score r \<and> match_score r \<le> 100)))
   \<and> (\<not> style_answer_ok self \<and> db \<noteq> [] \<longrightarrow>
        generate_recommendations lower self db = Inl AttributeError)"
proof -
  let ?recs = "catalog_recommendations lower self db"
  let ?ranked = "sort_reverse match_score ?recs"
  have g: "generate_recommendations lower self db
             = Inr (take 10 ?ranked, self\<lparr>recommendations := ?ranked\<rparr>)"
    if "style_answer_ok self \<or> db = []"
    using build_recommendations_ok[OF that, of lower]
    by (simp add: generate_recommendations_def Let_def)
  have len: "length ?ranked = length db"
    by (simp add: length_sort_reverse catalog_recommendations_def)
  have srt: "sorted_wrt (\<lambda>a b. match_score b \<le> match_score a) ?ranked"
    by (rule sort_reverse_descending)
  have stb: "filter (\<lambda>r. match_score r = c) ?ranked = filter (\<lambda>r. match_score r = c) ?recs" for c
    by (rule sort_reverse_stable)
  have srt10: "sorted_wrt (\<lambda>a b. match_score b \<le> match_score a) (take 10 ?ranked)"
    using srt by (rule sorted_wrt_take)
  have pre: "prefix (filter (\<lambda>r. match_score r = c) (take 10 ?ranked))
                    (filter (\<lambda>r. match_score r = c) ?recs)" for c
  proof -
    have "prefix (take 10 ?ranked) ?ranked"
      by (rule take_is_prefix)
    then have "prefix (filter (\<lambda>r. match_score r = c) (take 10 ?ranked))
                      (filter (\<lambda>r. match_score r = c) ?ranked)"
      by (rule filter_mono_prefix)
    then show ?thesis by (simp only: stb)
  qed
  have rng: "\<forall>r \<in> set ?ranked. 0 \<le> match_score r \<and> match_score r \<le> 100"
    by (auto simp: set_sort_reverse catalog_recommendations_def make_recommendation_def
        match_score_stated_range)
  have l10: "length (take 10 ?ranked) \<le> 10" by simp
  have ok: "\<exists>ranked.
         generate_recommendations lower self db
           = Inr (take 10 ranked, self\<lparr>recommendations := ranked\<rparr>)
         \<and> length ranked = length db
         \<and> sorted_wrt (\<lambda>a b. match_score b \<le> match_score a) ranked
         \<and> (\<forall>c. filter (\<lambda>r. match_score r = c) ranked
                = filter (\<lambda>r. match_score r = c) (catalog_recommendations lower self db))
         \<and> length (take 10 ranked) \<le> 10
         \<and> sorted_wrt (\<lambda>a b. match_score b \<le> match_score a) (take 10 ranked)
         \<and> (\<forall>c. prefix (filter (\<lambda>r. match_score r = c) (take 10 ranked))
                        (filter (\<lambda>r. match_score r = c) (catalog_recommendations lower self db)))
         \<and> (\<forall>r \<in> set ranked. 0 \<le> match_score r \<and> match_score r \<le> 100)"
    if "style_answer_ok self \<or> db = []"
    using g[OF that] len srt stb l10 srt10 pre rng by blast
  have bad: "generate_recommendations lower self db = Inl AttributeError"
    if "\<not> style_answer_ok self \<and> db \<noteq> []"
    using that by (simp add: generate_recommendations_raises)
  from ok bad show ?thesis by blast
qed

text \<open>
  The claim as stated, for every ledger, fails on the mock catalog where the style answer
  is the JSON value \<^verbatim>\<open>true\<close>: the method raises and returns no list.
\<close>

theorem recommendations_style_not_string:
  "generate_recommendations lower_ascii system_style_true MOCK_TEMPLATES = Inl AttributeError"
proof -
  have "\<not> style_answer_ok system_style_true"
    by (simp add: style_answer_ok_def answer_of_def system_style_true_def submit_response_def
        new_system_def)
  then show ?thesis
    by (rule generate_recommendations_raises) (simp add: MOCK_TEMPLATES_def)
qed

lemma style_true_not_ok: "\<not> style_answer_ok system_style_true"
  by (simp add: style_answer_ok_def answer_of_def system_style_true_def submit_response_def
      new_system_def)

lemma four_answers_style_ok: "style_answer_ok system_four_answers"
  by (simp add: style_answer_ok_def answer_of_def four_answers_ledger)

lemma four_answers_scores:
  "match_score_stated lower_ascii system_four_answers mock_template_1 = 100"
  "match_score_stated lower_ascii system_four_answers mock_template_2 = 75"
  "match_score_stated lower_ascii system_four_answers (mock_template_2\<lparr>name := ''Copy''\<rparr>) = 75"
  by (simp_all add: match_score_stated_def style_check_def color_check_def goal_check_def
      version_check_def answer_of_def four_answers_ledger mock_template_1_def
      mock_template_2_def get_list_def lower_Minimal)

theorem recommendations_ranked_witness:
  "style_answer_ok system_four_answers
   \<and> map template_name (catalog_recommendations lower_ascii system_four_answers catalog_three)
       = [''Modern Education Template'', ''Minimal Beige Professional'', ''Copy'']
   \<and> map match_score (catalog_recommendations lower_ascii system_four_answers catalog_three)
       = [75, 100, 75]
   \<and> map_sum id (\<lambda>(top, s'). (map template_name top, map match_score top,
                               map template_name (recommendations s')))
        (generate_recommendations lower_ascii system_four_answers catalog_three)
       = Inr ([''Minimal Beige Professional'', ''Modern Education Template'', ''Copy''],
              [100, 75, 75],
              [''Minimal Beige Professional'', ''Modern Education Template'', ''Copy''])
   \<and> (\<exists>ranked.
        generate_recommendations lower_ascii system_four_answers catalog_three
          = Inr (take 10 ranked, system_four_answers\<lparr>recommendations := ranked\<rparr>)
        \<and> length ranked = length catalog_three
        \<and> sorted_wrt (\<lambda>a b. match_score b \<le> match_score a) ranked
        \<and> (\<forall>c. filter (\<lambda>r. match_score r = c) ranked
               = filter (\<lambda>r. match_score r = c)
                   (catalog_recommendations lower_ascii system_four_answers catalog_three))
        \<and> length (take 10 ranked) \<le> 10
        \<and> sorted_wrt (\<lambda>a b. match_score b \<le> match_score a) (take 10 ranked)
        \<and> (\<forall>c. prefix (filter (\<lambda>r. match_score r = c) (take 10 ranked))
                       (filter (\<lambda>r. match_score r = c)
                          (catalog_recommendations lower_ascii system_four_answers catalog_three)))
        \<and> (\<forall>r \<in> set ranked. 0 \<le> match_score r \<and> match_score r \<le> 100))
   \<and> \<not> style_answer_ok system_style_true
   \<and> catalog_three \<noteq> []
   \<and> generate_recommendations lower_ascii system_style_true catalog_three = Inl AttributeError"
proof -
  note ok = four_answers_style_ok
  have ok': "style_answer_ok system_four_answers \<or> catalog_three = []"
    using ok by simp
  have c: "catalog_recommendations lower_ascii system_four_answers catalog_three
     = [make_recommendation mock_template_2 75, make_recommendation mock_template_1 100,
        make_recommendation (mock_template_2\<lparr>name := ''Copy''\<rparr>) 75]"
    by (simp add: catalog_recommendations_def catalog_three_def four_answers_scores)
  have n: "map template_name (catalog_recommendations lower_ascii system_four_answers catalog_three)
       = [''Modern Education Template'', ''Minimal Beige Professional'', ''Copy'']"
    by (simp add: c make_recommendation_def mock_template_1_def mock_template_2_def)
  have m: "map match_score (catalog_recommendations lower_ascii system_four_answers catalog_three)
       = [75, 100, 75]"
    by (simp add: c make_recommendation_def)
  have r: "sort_reverse match_score
             (catalog_recommendations lower_ascii system_four_answers catalog_three)
     = [make_recommendation mock_template_1 100, make_recommendation mock_template_2 75,
        make_recommendation (mock_template_2\<lparr>name := ''Copy''\<rparr>) 75]"
    by (simp add: c sort_reverse_def make_recommendation_def)
  have g: "map_sum id (\<lambda>(top, s'). (map template_name top, map match_score top,
                               map template_name (recommendations s')))
        (generate_recommendations lower_ascii system_four_answers catalog_three)
       = Inr ([''Minimal Beige Professional'', ''Modern Education Template'', ''Copy''],
              [100, 75, 75],
              [''Minimal Beige Professional'', ''Modern Education Template'', ''Copy''])"
    by (simp add: generate_recommendations_def build_recommendations_ok[OF ok'] Let_def r
        make_recommendation_def mock_template_1_def mock_template_2_def)
  have ne: "catalog_three \<noteq> []"
    by (simp add: catalog_three_def)
  note w1 = recommendations_ranked[of system_four_answers catalog_three lower_ascii]
  note w2 = recommendations_ranked[of system_style_true catalog_three lower_ascii]
  have e: "generate_recommendations lower_ascii system_style_true catalog_three
             = Inl AttributeError"
    using w2 style_true_not_ok ne by blast
  from w1 ok n m g style_true_not_ok ne e show ?thesis by blast
qed

section \<open>The implementation plan: properties\<close>

lemma timeline_keys_distinct:
  "timeline_1day \<noteq> timeline_1week" "timeline_1day \<noteq> timeline_1month"
  "timeline_1week \<noteq> timeline_1month"
  by (simp_all add: timeline_1day_def timeline_1week_def timeline_1month_def)

lemma timeline_key_eq:
  "timeline_key v = (if hashable v then Inr (roadmap_name_stated v) else Inl TypeError)"
  using timeline_keys_distinct
  by (cases v) (auto simp: timeline_key_def hashable_def roadmap_name_stated_def timeline_table_def)

lemma apply_roadmap_follows: "follows_roadmap (apply_roadmap r p) r"
  by (simp add: follows_roadmap_def apply_roadmap_def)

lemma apply_roadmap_timeline: "timeline (apply_roadmap r p) = timeline p"
  by (simp add: apply_roadmap_def)

text \<open>
  Claim C3, as amended. With the roadmap table of the configuration in place: when an
  answer to \<^verbatim>\<open>q5.1.1\<close> is recorded and is not a list or a dictionary,
  \<^verbatim>\<open>generate_implementation_plan\<close> returns the step list, a one-element resource list
  and the customization label of the roadmap the three-entry table gives for the answer,
  the standard one-week roadmap for every answer the table does not have; an answer that
  is a list or a dictionary raises \<^verbatim>\<open>TypeError\<close>. When no answer to \<^verbatim>\<open>q5.1.1\<close> is
  recorded, no roadmap is read: the plan has no steps, no resources and no customization
  label, and its timeline is the one-week literal.
\<close>

theorem plan_follows_timeline:
  assumes "implementation_roadmaps_of (config self) = Inr roadmaps"
  shows "(\<forall>t. map_of (user_responses self) ''q5.1.1'' = Some t \<and> hashable (response t) \<longrightarrow>
            (\<exists>p. generate_implementation_plan self = Inr p \<and> timeline p = response t
                \<and> follows_roadmap p
                     (roadmap_named roadmaps (roadmap_name_stated (response t)))))
       \<and> (\<forall>t. map_of (user_responses self) ''q5.1.1'' = Some t \<and> \<not> hashable (response t) \<longrightarrow>
            generate_implementation_plan self = Inl TypeError)
       \<and> (map_of (user_responses self) ''q5.1.1'' = None \<longrightarrow>
            (\<exists>p. generate_implementation_plan self = Inr p \<and> timeline p = JStr timeline_1week
                \<and> phases p = [] \<and> resources_needed p = []
                \<and> plan_customization_level p = None))"
proof -
  have a: "\<exists>p. generate_implementation_plan self = Inr p \<and> timeline p = response t
                \<and> follows_roadmap p (roadmap_named roadmaps (roadmap_name_stated (response t)))"
    if "map_of (user_responses self) ''q5.1.1'' = Some t" "hashable (response t)" for t
    using that assms
    by (simp add: generate_implementation_plan_def Let_def timeline_key_eq
        apply_roadmap_follows apply_roadmap_timeline roadmap_named_def)
  have b: "generate_implementation_plan self = Inl TypeError"
    if "map_of (user_responses self) ''q5.1.1'' = Some t" "\<not> hashable (response t)" for t
    using that by (simp add: generate_implementation_plan_def Let_def timeline_key_eq)
  have c: "\<exists>p. generate_implementation_plan self = Inr p \<and> timeline p = JStr timeline_1week
                \<and> phases p = [] \<and> resources_needed p = []
                \<and> plan_customization_level p = None"
    if "map_of (user_responses self) ''q5.1.1'' = None"
    using that by (simp add: generate_implementation_plan_def Let_def)
  from a b c show ?thesis by blast
qed

lemma sample_roadmaps_of: "implementation_roadmaps_of sample_config = Inr sample_roadmaps"
  by (simp add: implementation_roadmaps_of_def sample_config_def)

lemma sample_timeline_ledger:
  "user_responses (sample_timeline v) =
     [(''q5.1.1'', \<lparr>r_question_id = ''q5.1.1'', response = v, additional_details = None,
                    timestamp = ''t1''\<rparr>)]"
  "config (sample_timeline v) = sample_config"
  by (simp_all add: sample_timeline_def submit_response_def new_system_def)

text \<open>
  The claim as stated fails where no timeline answer is recorded: on the sample
  configuration the standard roadmap has three steps, and the plan has none, no resource
  and no label. It fails as well for an unrecognized answer that is a list: the method
  raises and returns no plan.
\<close>

theorem plan_without_timeline:
  "map_of (user_responses (new_system sample_config)) ''q5.1.1'' = None
   \<and> steps (roadmap_named sample_roadmaps ''standard_timeline_1week'')
       = Some [JStr ''pick'', JStr ''adapt'', JStr ''review'']
   \<and> map_sum id (\<lambda>p. (phases p, resources_needed p, plan_customization_level p))
        (generate_implementation_plan (new_system sample_config)) = Inr ([], [], None)
   \<and> map_sum id (\<lambda>p. follows_roadmap p (roadmap_named sample_roadmaps ''standard_timeline_1week''))
        (generate_implementation_plan (new_system sample_config)) = Inr False
   \<and> generate_implementation_plan (sample_timeline (JArr [JStr ''soon''])) = Inl TypeError"
  by (simp add: generate_implementation_plan_def new_system_def Let_def follows_roadmap_def
      roadmap_named_def sample_roadmaps_def sample_timeline_ledger timeline_key_def)

theorem plan_follows_timeline_witness:
  "implementation_roadmaps_of (config (sample_timeline (JStr timeline_1day))) = Inr sample_roadmaps
   \<and> map_of (user_responses (sample_timeline (JStr timeline_1day))) ''q5.1.1''
       = Some \<lparr>r_question_id = ''q5.1.1'', response = JStr timeline_1day,
                additional_details = None, timestamp = ''t1''\<rparr>
   \<and> hashable (JStr timeline_1day)
   \<and> map_sum id (\<lambda>p. (phases p, resources_needed p, plan_customization_level p))
        (generate_implementation_plan (sample_timeline (JStr timeline_1day)))
       = Inr ([JStr ''pick'', JStr ''fill''], [''one template''], Some ''minimal'')
   \<and> hashable (JNum 3)
   \<and> map_sum id (\<lambda>p. (phases p, resources_needed p, plan_customization_level p))
        (generate_implementation_plan (sample_timeline (JNum 3)))
       = Inr ([JStr ''pick'', JStr ''adapt'', JStr ''review''], [''template and icons''],
              Some ''moderate'')
   \<and> \<not> hashable (JArr [JStr timeline_1day])
   \<and> generate_implementation_plan (sample_timeline (JArr [JStr timeline_1day])) = Inl TypeError
   \<and> implementation_roadmaps_of (config (new_system sample_config)) = Inr sample_roadmaps
   \<and> map_of (user_responses (new_system sample_config)) ''q5.1.1'' = None
   \<and> map_sum id (\<lambda>p. (phases p, resources_needed p, plan_customization_level p))
        (generate_implementation_plan (new_system sample_config)) = Inr ([], [], None)"
proof -
  let ?sel = "\<lambda>p. (phases p, resources_needed p, plan_customization_level p)"
  let ?r = "\<lambda>v. \<lparr>r_question_id = ''q5.1.1'', response = v, additional_details = None,
                  timestamp = ''t1''\<rparr>"
  have cfg: "implementation_roadmaps_of (config (sample_timeline v)) = Inr sample_roadmaps" for v
    by (simp add: sample_timeline_ledger sample_roadmaps_of)
  have cfg0: "implementation_roadmaps_of (config (new_system sample_config)) = Inr sample_roadmaps"
    by (simp add: new_system_def sample_roadmaps_of)
  have led: "map_of (user_responses (sample_timeline v)) ''q5.1.1'' = Some (?r v)" for v
    by (simp add: sample_timeline_ledger)
  have led0: "map_of (user_responses (new_system sample_config)) ''q5.1.1'' = None"
    by (simp add: new_system_def)
  have h: "hashable (JStr timeline_1day)" "hashable (JNum 3)"
    "\<not> hashable (JArr [JStr timeline_1day])"
    by (simp_all add: hashable_def)
  have n1: "roadmap_name_stated (JStr timeline_1day) = ''tight_timeline_1day''"
    by (simp add: roadmap_name_stated_def)
  have n2: "roadmap_name_stated (JNum 3) = ''standard_timeline_1week''"
    by (simp add: roadmap_name_stated_def)
  note w1 = plan_follows_timeline[OF cfg, of "JStr timeline_1day"]
  note w2 = plan_follows_timeline[OF cfg, of "JNum 3"]
  note w3 = plan_follows_timeline[OF cfg, of "JArr [JStr timeline_1day]"]
  note w0 = plan_follows_timeline[OF cfg0]
  from w1 led[of "JStr timeline_1day"] h(1)
  obtain p1 where p1: "generate_implementation_plan (sample_timeline (JStr timeline_1day)) = Inr p1"
    "follows_roadmap p1 (roadmap_named sample_roadmaps (roadmap_name_stated (JStr timeline_1day)))"
    by force
  have r1: "map_sum id ?sel (generate_implementation_plan (sample_timeline (JStr timeline_1day)))
       = Inr ([JStr ''pick'', JStr ''fill''], [''one template''], Some ''minimal'')"
    using p1 by (simp add: n1 follows_roadmap_def roadmap_named_def sample_roadmaps_def get_list_def)
  from w2 led[of "JNum 3"] h(2)
  obtain p2 where p2: "generate_implementation_plan (sample_timeline (JNum 3)) = Inr p2"
    "follows_roadmap p2 (roadmap_named sample_roadmaps (roadmap_name_stated (JNum 3)))"
    by force
  have r2: "map_sum id ?sel (generate_implementation_plan (sample_timeline (JNum 3)))
       = Inr ([JStr ''pick'', JStr ''adapt'', JStr ''review''], [''template and icons''],
              Some ''moderate'')"
    using p2 by (simp add: n2 follows_roadmap_def roadmap_named_def sample_roadmaps_def get_list_def)
  have r3: "generate_implementation_plan (sample_timeline (JArr [JStr timeline_1day]))
       = Inl TypeError"
    using w3 led[of "JArr [JStr timeline_1day]"] h(3) by force
  from w0 led0
  obtain p0 where p0: "generate_implementation_plan (new_system sample_config) = Inr p0"
    "phases p0 = []" "resources_needed p0 = []" "plan_customization_level p0 = None"
    by blast
  then have r0: "map_sum id ?sel (generate_implementation_plan (new_system sample_config))
       = Inr ([], [], None)"
    by simp
  from cfg[of "JStr timeline_1day"] led[of "JStr timeline_1day"] h r1 r2 r3 cfg0 led0 r0
  show ?thesis by blast
qed

section \<open>Profile scoring: properties\<close>

lemma categories_distinct: "distinct categories"
  by (simp add: categories_def)

lemma scores_init_keys: "map fst scores_init = categories"
  by (simp add: scores_init_def categories_def)

lemma scores_init_zero: "c \<in> set categories \<Longrightarrow> map_of scores_init c = Some 0"
  by (auto simp: scores_init_def categories_def)

lemma category_mapping_range:
  "map_of category_mapping p = Some c \<Longrightarrow> c \<in> set categories \<and> c \<noteq> []"
proof -
  assume "map_of category_mapping p = Some c"
  then have "(p, c) \<in> set category_mapping" by (rule map_of_SomeD)
  then have "c \<in> snd ` set category_mapping" by force
  moreover have "\<forall>x \<in> snd ` set category_mapping. x \<in> set categories \<and> x \<noteq> []"
    by (simp add: category_mapping_def categories_def)
  ultimately show ?thesis by blast
qed

lemma update_keys_present:
  "k \<in> set (map fst al) \<Longrightarrow> map fst (AList.update k v al) = map fst al"
  by (simp add: update_keys)

lemma add_score_present:
  assumes "map_of scores c = Some v"
  shows "add_score c x scores = Inr (AList.update c (v + x) scores)"
  using assms by (simp add: add_score_def)

lemma key_has_value: "k \<in> set (map fst al) \<Longrightarrow> \<exists>v. map_of al k = Some v"
  by (cases "map_of al k") (auto simp: map_of_eq_None_iff)

lemma contribution_other:
  "map_of category_mapping (prefix_of (fst e)) = Some cat \<Longrightarrow> c \<noteq> cat \<Longrightarrow>
     contribution_amended self c e = 0"
  by (simp add: contribution_amended_def qualifies_def)

lemma contribution_unmapped:
  "map_of category_mapping (prefix_of (fst e)) = None \<Longrightarrow> contribution_amended self c e = 0"
  by (simp add: contribution_amended_def qualifies_def)

lemma score_responses_total:
  assumes "map fst scores = categories"
  shows "\<exists>scores'. score_responses self L scores = Inr scores'
           \<and> map fst scores' = categories
           \<and> (\<forall>c. map_of scores' c
                 = map_option (\<lambda>v. v + sum_list (map (contribution_amended self c) L))
                     (map_of scores c))"
  using assms
proof (induction L arbitrary: scores)
  case Nil
  then show ?case by (simp add: option.map_ident)
next
  case (Cons e L)
  obtain qid r where e: "e = (qid, r)" by (cases e)
  from Cons.IH[OF Cons.prems] obtain rest where rest:
    "score_responses self L scores = Inr rest" "map fst rest = categories"
    "\<forall>c. map_of rest c
       = map_option (\<lambda>v. v + sum_list (map (contribution_amended self c) L)) (map_of scores c)"
    by blast
  show ?case
  proof (cases "map_of category_mapping (prefix_of qid)")
    case None
    then have "contribution_amended self c e = 0" for c
      by (simp add: e contribution_unmapped)
    with None rest show ?thesis by (simp add: e)
  next
    case (Some cat)
    then have cat: "cat \<in> set categories" "cat \<noteq> []"
      using category_mapping_range by blast+
    show ?thesis
    proof (cases "truthy (response r)")
      case False
      then have "contribution_amended self c e = 0" for c
        by (simp add: e contribution_amended_def qualifies_def)
      with False Some rest show ?thesis by (simp add: e)
    next
      case True
      show ?thesis
      proof (cases "find_question self qid")
        case None
        then have "contribution_amended self c e = 0" for c
          by (simp add: e contribution_amended_def)
        with None True Some cat rest show ?thesis by (simp add: e)
      next
        case (Some q)
        let ?x = "of_int (weight q) / 10 :: rat"
        from cat(1) Cons.prems obtain v where v: "map_of scores cat = Some v"
          using key_has_value[of cat scores] by auto
        let ?s = "AList.update cat (v + ?x) scores"
        have keys: "map fst ?s = categories"
          using cat(1) Cons.prems by (simp add: update_keys_present)
        from Cons.IH[OF keys] obtain fin where fin:
          "score_responses self L ?s = Inr fin" "map fst fin = categories"
          "\<forall>c. map_of fin c
             = map_option (\<lambda>v. v + sum_list (map (contribution_amended self c) L)) (map_of ?s c)"
          by blast
        have run: "score_responses self (e # L) scores = Inr fin"
          using \<open>map_of category_mapping (prefix_of qid) = Some cat\<close> cat(2) True Some v fin(1)
          by (simp add: e add_score_present)
        have own: "contribution_amended self cat e = ?x"
          using \<open>map_of category_mapping (prefix_of qid) = Some cat\<close> True Some
          by (simp add: e contribution_amended_def qualifies_def)
        have other: "contribution_amended self c e = 0" if "c \<noteq> cat" for c
          using \<open>map_of category_mapping (prefix_of qid) = Some cat\<close> that
          by (simp add: e contribution_other)
        have "map_of fin c
                = map_option (\<lambda>v. v + sum_list (map (contribution_amended self c) (e # L)))
                    (map_of scores c)" for c
        proof (cases "c = cat")
          case True
          then show ?thesis using fin(3) v own by (simp add: update_conv' add.assoc)
        next
          case False
          then show ?thesis using fin(3) other by (simp add: update_conv')
        qed
        with run fin(2) show ?thesis by blast
      qed
    qed
  qed
qed

lemma clamp_scores_result:
  assumes "distinct cs" and "set cs \<subseteq> set (map fst scores)"
    and "\<forall>c \<in> set cs. max_scores c = Some (mx c)"
  shows "\<exists>scores'. clamp_scores max_scores cs scores = Inr scores'
           \<and> map fst scores' = map fst scores
           \<and> (\<forall>c. map_of scores' c
                 = (if c \<in> set cs then map_option (\<lambda>v. min (v * 2) (mx c)) (map_of scores c)
                    else map_of scores c))"
  using assms
proof (induction cs arbitrary: scores)
  case Nil
  then show ?case by simp
next
  case (Cons k cs)
  from Cons.prems(2) obtain v where v: "map_of scores k = Some v"
    using key_has_value[of k scores] by auto
  from Cons.prems(3) have m: "max_scores k = Some (mx k)" by simp
  let ?s = "AList.update k (min (v * 2) (mx k)) scores"
  have keys: "map fst ?s = map fst scores"
    using Cons.prems(2) by (simp add: update_keys_present)
  from Cons.prems have "distinct cs" "set cs \<subseteq> set (map fst ?s)"
    "\<forall>c \<in> set cs. max_scores c = Some (mx c)"
    by (simp_all add: keys)
  from Cons.IH[OF this] obtain fin where fin:
    "clamp_scores max_scores cs ?s = Inr fin" "map fst fin = map fst ?s"
    "\<forall>c. map_of fin c
       = (if c \<in> set cs then map_option (\<lambda>v. min (v * 2) (mx c)) (map_of ?s c)
          else map_of ?s c)"
    by blast
  have run: "clamp_scores max_scores (k # cs) scores = Inr fin"
    using v m fin(1) by simp
  from Cons.prems(1) have notin: "k \<notin> set cs" by simp
  have "map_of fin c
          = (if c \<in> set (k # cs) then map_option (\<lambda>v. min (v * 2) (mx c)) (map_of scores c)
             else map_of scores c)" for c
  proof (cases "c = k")
    case True
    then show ?thesis using fin(3) notin v by (simp add: update_conv')
  next
    case False
    then show ?thesis using fin(3) by (simp add: update_conv')
  qed
  with run fin(2) keys show ?case by auto
qed

lemma alist_by_keys:
  "distinct (map fst al) \<Longrightarrow> al = map (\<lambda>k. (k, the (map_of al k))) (map fst al)"
proof (induction al)
  case Nil
  then show ?case by simp
next
  case (Cons p ps)
  then have "ps = map (\<lambda>k. (k, the (map_of ps k))) (map fst ps)" by simp
  moreover have "map (\<lambda>k. (k, the (map_of ps k))) (map fst ps)
                   = map (\<lambda>k. (k, the (map_of (p # ps) k))) (map fst ps)"
  proof (rule map_cong)
    fix k assume "k \<in> set (map fst ps)"
    with Cons.prems have "k \<noteq> fst p" by force
    then show "(k, the (map_of ps k)) = (k, the (map_of (p # ps) k))"
      by (cases p) simp
  qed simp
  ultimately show ?case by (cases p) simp
qed

lemma calculate_profile_score_eq:
  assumes "\<forall>c \<in> set categories. weight_distribution (config self) c = Some (mx c)"
  shows "calculate_profile_score self
           = Inr (map (\<lambda>c. (c, min (total_amended self c * 2) (mx c))) categories)"
proof -
  from score_responses_total[OF scores_init_keys, of self "user_responses self"]
  obtain s1 where s1: "score_responses self (user_responses self) scores_init = Inr s1"
    "map fst s1 = categories"
    "\<forall>c. map_of s1 c = map_option (\<lambda>v. v + total_amended self c) (map_of scores_init c)"
    by (auto simp: total_amended_def)
  have "distinct (map fst s1)" "set (map fst s1) \<subseteq> set (map fst s1)"
    "\<forall>c \<in> set (map fst s1). weight_distribution (config self) c = Some (mx c)"
    using s1(2) assms categories_distinct by simp_all
  from clamp_scores_result[OF this]
  obtain s2 where s2: "clamp_scores (weight_distribution (config self)) (map fst s1) s1 = Inr s2"
    "map fst s2 = map fst s1"
    "\<forall>c. map_of s2 c
       = (if c \<in> set (map fst s1) then map_option (\<lambda>v. min (v * 2) (mx c)) (map_of s1 c)
          else map_of s1 c)"
    by blast
  have val: "map_of s2 c = Some (min (total_amended self c * 2) (mx c))"
    if "c \<in> set categories" for c
    using that s2(3) s1(2,3) by (simp add: scores_init_zero)
  have keys: "map fst s2 = categories"
    using s2(2) s1(2) by simp
  then have "distinct (map fst s2)" by (simp add: categories_distinct)
  then have "s2 = map (\<lambda>k. (k, the (map_of s2 k))) (map fst s2)"
    by (rule alist_by_keys)
  also have "\<dots> = map (\<lambda>c. (c, min (total_amended self c * 2) (mx c))) categories"
    unfolding keys by (rule map_cong) (simp_all add: val)
  finally have "s2 = map (\<lambda>c. (c, min (total_amended self c * 2) (mx c))) categories" .
  with s1(1) s2(1) show ?thesis
    by (simp add: calculate_profile_score_def)
qed

lemma sum_options_agrees:
  "sum_options (map (contribution_stated self c) L) = Some t \<Longrightarrow>
     sum_list (map (contribution_amended self c) L) = t"
proof (induction L arbitrary: t)
  case Nil
  then show ?case by simp
next
  case (Cons e L)
  from Cons.prems obtain v u where v: "contribution_stated self c e = Some v"
    and u: "sum_options (map (contribution_stated self c) L) = Some u" and t: "t = v + u"
    by (auto split: option.splits)
  from v have "contribution_amended self c e = v"
    by (auto simp: contribution_stated_def contribution_amended_def split: if_splits)
  with Cons.IH[OF u] t show ?case by simp
qed

lemma those_map_Some:
  "those (map f xs) = Some ys \<Longrightarrow> map Some ys = map f xs"
proof (induction xs arbitrary: ys)
  case Nil
  then show ?case by simp
next
  case (Cons x xs)
  then show ?case by (auto split: option.splits)
qed

lemma profile_score_stated_Some:
  assumes "profile_score_stated self = Some m" and "c \<in> set categories"
  shows "\<exists>t mc. total_stated self c = Some t \<and> weight_distribution (config self) c = Some mc"
proof -
  let ?f = "\<lambda>c. case total_stated self c of
                  None \<Rightarrow> None
                | Some t \<Rightarrow> map_option (\<lambda>m. (c, min (t * 2) m))
                            (weight_distribution (config self) c)"
  from assms(1) have "map Some m = map ?f categories"
    unfolding profile_score_stated_def by (rule those_map_Some)
  then have "set (map ?f categories) = set (map Some m)" by simp
  with assms(2) have "?f c \<in> Some ` set m" by auto
  then show ?thesis by (auto split: option.splits)
qed

text \<open>
  Claim C1, as amended. When the six maxima are configured, \<^verbatim>\<open>calculate_profile_score\<close>
  returns, for each of the six categories in order, the double of the category's total
  clamped at its maximum, where the total adds the tenth of the question's weight for
  every recorded response whose answer is truthy, whose two-segment prefix the table maps
  to the category, and whose identifier is the identifier of a question of the
  configuration; every other response adds nothing. Where the computation of the claim as
  written has a result, it is the result of the method.
\<close>

theorem profile_score_weighted_sum:
  "((\<forall>c \<in> set categories. weight_distribution (config self) c = Some (mx c)) \<longrightarrow>
      calculate_profile_score self
        = Inr (map (\<lambda>c. (c, min (total_amended self c * 2) (mx c))) categories))
   \<and> (\<forall>m. profile_score_stated self = Some m \<longrightarrow> calculate_profile_score self = Inr m)"
proof -
  have "calculate_profile_score self = Inr m" if m: "profile_score_stated self = Some m" for m
  proof -
    let ?mx = "\<lambda>c. the (weight_distribution (config self) c)"
    let ?f = "\<lambda>c. case total_stated self c of
                    None \<Rightarrow> None
                  | Some t \<Rightarrow> map_option (\<lambda>m. (c, min (t * 2) m))
                              (weight_distribution (config self) c)"
    have cfg: "\<forall>c \<in> set categories. weight_distribution (config self) c = Some (?mx c)"
      using profile_score_stated_Some[OF m] by force
    from m have "map Some m = map ?f categories"
      unfolding profile_score_stated_def by (rule those_map_Some)
    also have "\<dots> = map (\<lambda>c. Some (c, min (total_amended self c * 2) (?mx c))) categories"
    proof (rule map_cong)
      fix c assume c: "c \<in> set categories"
      from profile_score_stated_Some[OF m c] obtain t mc where
        t: "total_stated self c = Some t" and mc: "weight_distribution (config self) c = Some mc"
        by blast
      from t have "total_amended self c = t"
        unfolding total_stated_def total_amended_def by (rule sum_options_agrees)
      with t mc show "?f c = Some (c, min (total_amended self c * 2) (?mx c))" by simp
    qed simp
    also have "\<dots> = map Some (map (\<lambda>c. (c, min (total_amended self c * 2) (?mx c))) categories)"
      by simp
    finally have "map Some m
        = map Some (map (\<lambda>c. (c, min (total_amended self c * 2) (?mx c))) categories)" .
    then have "m = map (\<lambda>c. (c, min (total_amended self c * 2) (?mx c))) categories"
      by (rule map_injective) simp
    with calculate_profile_score_eq[OF cfg] show ?thesis by simp
  qed
  then show ?thesis using calculate_profile_score_eq[of self mx] by blast
qed

lemma sample_unknown_ledger:
  "user_responses sample_unknown =
     [(''q1.1.9'', \<lparr>r_question_id = ''q1.1.9'', response = JStr ''yes'',
                    additional_details = None, timestamp = ''t1''\<rparr>)]"
  "config sample_unknown = sample_config"
  by (simp_all add: sample_unknown_def submit_response_def new_system_def)

lemma prefix_of_examples:
  "prefix_of ''q1.1.9'' = ''q1.1''" "prefix_of ''q1.1.1'' = ''q1.1''"
  "prefix_of ''q2.1.1'' = ''q2.1''" "prefix_of ''q1.3.2'' = ''q1.3''"
  "prefix_of ''q9.1.1'' = ''q9.1''"
  by (simp_all add: prefix_of_def)

text \<open>
  The claim as stated fails for a truthy answer to \<^verbatim>\<open>q1.1.9\<close>: its prefix is mapped to
  \<^verbatim>\<open>content_goals\<close>, the configuration has no such question and so no weight to add,
  and the method returns a score all the same, in which the response counts for nothing.
\<close>

theorem profile_score_unknown_question:
  "qualifies ''content_goals''
     (''q1.1.9'', \<lparr>r_question_id = ''q1.1.9'', response = JStr ''yes'',
                   additional_details = None, timestamp = ''t1''\<rparr>)
   \<and> find_question sample_unknown ''q1.1.9'' = None
   \<and> profile_score_stated sample_unknown = None
   \<and> calculate_profile_score sample_unknown
       = Inr [(''content_goals'', 0), (''audience_context'', 0), (''design_preferences'', 0),
              (''technical_requirements'', 0), (''timeline_resources'', 0),
              (''scalability'', 0)]"
proof -
  have q: "qualifies ''content_goals''
     (''q1.1.9'', \<lparr>r_question_id = ''q1.1.9'', response = JStr ''yes'',
                   additional_details = None, timestamp = ''t1''\<rparr>)"
    by (simp add: qualifies_def prefix_of_examples category_mapping_def)
  have f: "find_question sample_unknown ''q1.1.9'' = None"
    by (simp add: find_question_def get_all_questions_def sample_unknown_ledger
        sample_config_def mk_question_def)
  have t: "total_stated sample_unknown ''content_goals'' = None"
    using q f by (simp add: total_stated_def sample_unknown_ledger contribution_stated_def)
  have s: "profile_score_stated sample_unknown = None"
    by (simp add: profile_score_stated_def categories_def t)
  have c: "calculate_profile_score sample_unknown
       = Inr [(''content_goals'', 0), (''audience_context'', 0), (''design_preferences'', 0),
              (''technical_requirements'', 0), (''timeline_resources'', 0),
              (''scalability'', 0)]"
    by (simp add: calculate_profile_score_def sample_unknown_ledger prefix_of_examples
        category_mapping_def f scores_init_def sample_config_def)
  from q f s c show ?thesis by blast
qed

lemma total_amended_nonneg:
  assumes "\<forall>q \<in> set (get_all_questions self). 0 \<le> weight q"
  shows "0 \<le> total_amended self c"
proof -
  have "0 \<le> contribution_amended self c e" for e
  proof (cases "find_question self (fst e)")
    case None
    then show ?thesis by (simp add: contribution_amended_def)
  next
    case (Some q)
    then have "q \<in> set (get_all_questions self)"
      by (auto simp: find_question_def find_Some_iff)
    with assms have "0 \<le> weight q" by blast
    with Some show ?thesis by (simp add: contribution_amended_def)
  qed
  then have "\<forall>x \<in> set (map (contribution_amended self c) (user_responses self)). 0 \<le> x"
    by auto
  then show ?thesis
    unfolding total_amended_def by (intro sum_list_nonneg) blast
qed

lemma clamp_scores_configured:
  "clamp_scores max_scores cs scores = Inr scores' \<Longrightarrow> \<forall>c \<in> set cs. max_scores c \<noteq> None"
  by (induction cs arbitrary: scores) (auto split: option.splits)

lemma calculate_profile_score_configured:
  assumes "calculate_profile_score self = Inr scores"
  shows "\<forall>c \<in> set categories. weight_distribution (config self) c \<noteq> None"
proof -
  from score_responses_total[OF scores_init_keys, of self "user_responses self"]
  obtain s1 where s1: "score_responses self (user_responses self) scores_init = Inr s1"
    "map fst s1 = categories"
    by blast
  with assms have "clamp_scores (weight_distribution (config self)) categories s1 = Inr scores"
    by (simp add: calculate_profile_score_def)
  then show ?thesis by (rule clamp_scores_configured)
qed

text \<open>
  Claim C5. When no configured question has a negative weight and no configured
  per-category maximum is negative, every result \<^verbatim>\<open>calculate_profile_score\<close> returns
  has a score for exactly the six categories, each at least 0 and at most the configured
  maximum of its category; and the method does return a result when each of the six
  categories has a configured maximum.
\<close>

theorem profile_score_bounds:
  assumes "\<forall>q \<in> set (get_all_questions self). 0 \<le> weight q"
    and "\<forall>c \<in> set categories. \<forall>m. weight_distribution (config self) c = Some m \<longrightarrow> 0 \<le> m"
  shows "(\<forall>scores. calculate_profile_score self = Inr scores \<longrightarrow>
            map fst scores = categories
            \<and> (\<forall>c \<in> set categories. \<exists>v m. map_of scores c = Some v
                  \<and> weight_distribution (config self) c = Some m \<and> 0 \<le> v \<and> v \<le> m))
       \<and> ((\<forall>c \<in> set categories. weight_distribution (config self) c \<noteq> None) \<longrightarrow>
            (\<exists>scores. calculate_profile_score self = Inr scores))"
proof -
  let ?mx = "\<lambda>c. the (weight_distribution (config self) c)"
  let ?f = "\<lambda>c. min (total_amended self c * 2) (?mx c)"
  let ?scores = "map (\<lambda>c. (c, ?f c)) categories"
  have run: "calculate_profile_score self = Inr ?scores"
    if "\<forall>c \<in> set categories. weight_distribution (config self) c \<noteq> None"
  proof -
    from that have "\<forall>c \<in> set categories. weight_distribution (config self) c = Some (?mx c)"
      by auto
    then show ?thesis by (rule calculate_profile_score_eq)
  qed
  have bounds: "map fst scores = categories
      \<and> (\<forall>c \<in> set categories. \<exists>v m. map_of scores c = Some v
            \<and> weight_distribution (config self) c = Some m \<and> 0 \<le> v \<and> v \<le> m)"
    if ret: "calculate_profile_score self = Inr scores" for scores
  proof -
    from ret have cfg: "\<forall>c \<in> set categories. weight_distribution (config self) c \<noteq> None"
      by (rule calculate_profile_score_configured)
    with run ret have eq: "scores = ?scores" by simp
    have keys: "map fst ?scores = categories"
      by (simp add: comp_def)
    have "\<exists>v m. map_of ?scores c = Some v
            \<and> weight_distribution (config self) c = Some m \<and> 0 \<le> v \<and> v \<le> m"
      if c: "c \<in> set categories" for c
    proof -
      have look: "map_of ?scores c = Some (?f c)"
        using c by (simp add: map_of_map_restrict)
      from cfg c obtain m where m: "weight_distribution (config self) c = Some m" by auto
      with assms(2) c have "0 \<le> ?mx c" by auto
      moreover have "0 \<le> total_amended self c * 2"
        using total_amended_nonneg[OF assms(1), of c] by simp
      ultimately have "0 \<le> ?f c" by simp
      moreover have "?f c \<le> ?mx c" by simp
      ultimately show ?thesis using look m by auto
    qed
    with keys eq show ?thesis by blast
  qed
  from run bounds show ?thesis by blast
qed

lemma sample_scored_ledger:
  "user_responses sample_scored =
     [(''q1.1.1'', \<lparr>r_question_id = ''q1.1.1'', response = JStr goal_education,
                    additional_details = None, timestamp = ''t1''\<rparr>),
      (''q2.1.1'', \<lparr>r_question_id = ''q2.1.1'', response = JStr ''Minimal'',
                    additional_details = None, timestamp = ''t2''\<rparr>),
      (''q1.3.2'', \<lparr>r_question_id = ''q1.3.2'', response = JStr [],
                    additional_details = None, timestamp = ''t3''\<rparr>),
      (''q9.1.1'', \<lparr>r_question_id = ''q9.1.1'', response = JBool True,
                    additional_details = None, timestamp = ''t4''\<rparr>),
      (''q1.1.9'', \<lparr>r_question_id = ''q1.1.9'', response = JStr ''yes'',
                    additional_details = None, timestamp = ''t5''\<rparr>)]"
  by (simp add: sample_scored_def submit_response_def sample_full_ledger)

lemma sample_configs:
  "config sample_half = sample_config" "config sample_full = sample_config"
  "config sample_scored = sample_config"
  by (simp_all add: sample_scored_def sample_full_def sample_half_def submit_response_def
      new_system_def)

lemma sample_all_questions:
  "get_all_questions sample_full = get_all_questions (new_system sample_config)"
  "get_all_questions sample_scored = get_all_questions (new_system sample_config)"
  by (simp_all add: get_all_questions_def sample_configs new_system_def)

lemma sample_find:
  "find_question sample_scored ''q1.1.1'' = Some (mk_question ''q1.1.1'' (Some True) 10)"
  "find_question sample_scored ''q2.1.1'' = Some (mk_question ''q2.1.1'' (Some True) 300)"
  "find_question sample_scored ''q1.3.2'' = Some (mk_question ''q1.3.2'' None 8)"
  "find_question sample_scored ''q9.1.1'' = None"
  "find_question sample_scored ''q1.1.9'' = None"
  "find_question sample_full ''q1.1.1'' = Some (mk_question ''q1.1.1'' (Some True) 10)"
  "find_question sample_full ''q2.1.1'' = Some (mk_question ''q2.1.1'' (Some True) 300)"
  by (simp_all add: find_question_def sample_all_questions sample_questions mk_question_def)

lemma goal_education_truthy: "goal_education \<noteq> []"
  by (simp add: goal_education_def)

lemma sample_totals:
  "total_amended sample_scored ''content_goals'' = 1"
  "total_amended sample_scored ''audience_context'' = 0"
  "total_amended sample_scored ''design_preferences'' = 30"
  "total_amended sample_scored ''technical_requirements'' = 0"
  "total_amended sample_scored ''timeline_resources'' = 0"
  "total_amended sample_scored ''scalability'' = 0"
  by (simp_all add: total_amended_def sample_scored_ledger contribution_amended_def
      qualifies_def prefix_of_examples category_mapping_def sample_find mk_question_def
      goal_education_truthy)

lemma sample_maxima:
  "weight_distribution sample_config =
     map_of [(''content_goals'', 25), (''audience_context'', 20), (''design_preferences'', 20),
             (''technical_requirements'', 15), (''timeline_resources'', 10),
             (''scalability'', 10)]"
  by (simp add: sample_config_def)

lemma sample_stated:
  "profile_score_stated sample_full
     = Some [(''content_goals'', 2), (''audience_context'', 0), (''design_preferences'', 20),
             (''technical_requirements'', 0), (''timeline_resources'', 0),
             (''scalability'', 0)]"
  by (simp add: profile_score_stated_def categories_def total_stated_def sample_full_ledger
      contribution_stated_def qualifies_def prefix_of_examples category_mapping_def
      sample_find mk_question_def goal_education_truthy sample_configs sample_maxima)

theorem profile_score_weighted_sum_witness:
  "weight_distribution (config sample_scored) ''content_goals'' = Some 25
   \<and> weight_distribution (config sample_scored) ''audience_context'' = Some 20
   \<and> weight_distribution (config sample_scored) ''design_preferences'' = Some 20
   \<and> weight_distribution (config sample_scored) ''technical_requirements'' = Some 15
   \<and> weight_distribution (config sample_scored) ''timeline_resources'' = Some 10
   \<and> weight_distribution (config sample_scored) ''scalability'' = Some 10
   \<and> calculate_profile_score sample_scored
       = Inr [(''content_goals'', 2), (''audience_context'', 0), (''design_preferences'', 20),
              (''technical_requirements'', 0), (''timeline_resources'', 0),
              (''scalability'', 0)]
   \<and> profile_score_stated sample_full
       = Some [(''content_goals'', 2), (''audience_context'', 0), (''design_preferences'', 20),
               (''technical_requirements'', 0), (''timeline_resources'', 0),
               (''scalability'', 0)]
   \<and> calculate_profile_score sample_full
       = Inr [(''content_goals'', 2), (''audience_context'', 0), (''design_preferences'', 20),
              (''technical_requirements'', 0), (''timeline_resources'', 0),
              (''scalability'', 0)]"
proof -
  let ?mx = "\<lambda>c. case weight_distribution sample_config c of None \<Rightarrow> 0 | Some m \<Rightarrow> m"
  have w: "weight_distribution (config sample_scored) ''content_goals'' = Some 25"
    "weight_distribution (config sample_scored) ''audience_context'' = Some 20"
    "weight_distribution (config sample_scored) ''design_preferences'' = Some 20"
    "weight_distribution (config sample_scored) ''technical_requirements'' = Some 15"
    "weight_distribution (config sample_scored) ''timeline_resources'' = Some 10"
    "weight_distribution (config sample_scored) ''scalability'' = Some 10"
    by (simp_all add: sample_configs sample_maxima)
  then have h: "\<forall>c \<in> set categories. weight_distribution (config sample_scored) c = Some (?mx c)"
    by (simp add: categories_def sample_configs)
  from profile_score_weighted_sum[of sample_scored ?mx] h
  have "calculate_profile_score sample_scored
          = Inr (map (\<lambda>c. (c, min (total_amended sample_scored c * 2) (?mx c))) categories)"
    by blast
  then have r1: "calculate_profile_score sample_scored
       = Inr [(''content_goals'', 2), (''audience_context'', 0), (''design_preferences'', 20),
              (''technical_requirements'', 0), (''timeline_resources'', 0),
              (''scalability'', 0)]"
    by (simp add: categories_def sample_totals sample_maxima)
  from profile_score_weighted_sum[of sample_full ?mx] sample_stated
  have r2: "calculate_profile_score sample_full
       = Inr [(''content_goals'', 2), (''audience_context'', 0), (''design_preferences'', 20),
              (''technical_requirements'', 0), (''timeline_resources'', 0),
              (''scalability'', 0)]"
    by blast
  from w r1 sample_stated r2 show ?thesis by blast
qed

theorem profile_score_bounds_witness:
  "list_all (\<lambda>q. 0 \<le> weight q) (get_all_questions sample_scored)
   \<and> list_all (\<lambda>c. case weight_distribution (config sample_scored) c of
                       None \<Rightarrow> False | Some m \<Rightarrow> 0 \<le> m) categories
   \<and> (\<exists>scores. calculate_profile_score sample_scored = Inr scores
         \<and> map fst scores = categories
         \<and> (\<forall>c \<in> set categories. \<exists>v m. map_of scores c = Some v
               \<and> weight_distribution (config sample_scored) c = Some m \<and> 0 \<le> v \<and> v \<le> m))"
proof -
  have a: "list_all (\<lambda>q. 0 \<le> weight q) (get_all_questions sample_scored)"
    by (simp add: sample_all_questions sample_questions mk_question_def)
  have b: "list_all (\<lambda>c. case weight_distribution (config sample_scored) c of
                       None \<Rightarrow> False | Some m \<Rightarrow> 0 \<le> m) categories"
    by (simp add: categories_def sample_configs sample_maxima)
  from a have a': "\<forall>q \<in> set (get_all_questions sample_scored). 0 \<le> weight q"
    by (simp add: list_all_iff)
  from b have b': "\<forall>c \<in> set categories.
      \<forall>m. weight_distribution (config sample_scored) c = Some m \<longrightarrow> 0 \<le> m"
    by (auto simp: list_all_iff split: option.splits)
  from b have c: "\<forall>c \<in> set categories. weight_distribution (config sample_scored) c \<noteq> None"
    by (auto simp: list_all_iff split: option.splits)
  from profile_score_bounds[OF a' b'] c a b show ?thesis by blast
qed

end
